theory Spec2Isabelle
  imports Complex_Main "HOL-Library.Multiset"
begin

section \<open>composer.h: requests, results and the text generator interface\<close>

text \<open>
  A \<^verbatim>\<open>std::unordered_map<std::string, std::string>\<close> is a map from strings to strings.
  A \<^verbatim>\<open>float\<close> score is a real number: the scores are only ever compared, and the order of
  the (non-NaN) floats is the order of the reals.
\<close>

record CompositionRequest =
  missing_entities :: "string list"
  known_entities :: "string \<rightharpoonup> string"
  conversation_context :: string

record CompositionResult =
  generated_question :: string
  targeted_entities :: "string list"
  quality_score :: real
  is_valid :: bool
  generation_method :: string

text \<open>The default constructor of \<^verbatim>\<open>CompositionResult\<close>.\<close>

definition CompositionResult_default :: CompositionResult where
  "CompositionResult_default =
     \<lparr>generated_question = [], targeted_entities = [], quality_score = 0,
      is_valid = False, generation_method = ''none''\<rparr>"

text \<open>
  \<^verbatim>\<open>LLMInterface\<close> is an abstract class whose implementation is outside the repository, so
  it is a record of three functions over a state \<open>'s\<close> of the implementation's own. Any of
  the three virtual methods may throw: the result \<open>None\<close> is a thrown
  \<^verbatim>\<open>std::exception\<close>, and the state is the one the call left behind. A function of this
  development that can let an exception out returns an option in the same way.
\<close>

record 's LLMInterface =
  generateQuestion :: "CompositionRequest \<Rightarrow> 's \<Rightarrow> string option \<times> 's"
  assessQuestionQuality :: "string \<Rightarrow> CompositionRequest \<Rightarrow> 's \<Rightarrow> real option \<times> 's"
  isAvailable :: "'s \<Rightarrow> bool option \<times> 's"

section \<open>composer.cpp: ComposerCrew\<close>

text \<open>
  The fields of \<^verbatim>\<open>ComposerCrew\<close> that its sequential code reads and writes; the worker
  threads, the task queue and their locks are not modelled. \<open>llm_interface = None\<close> is the
  null \<^verbatim>\<open>unique_ptr\<close>.
\<close>

record 's ComposerCrew =
  llm_interface :: "'s LLMInterface option"
  quality_threshold :: real
  max_retries :: int
  num_worker_threads :: int
  entity_templates :: "string \<rightharpoonup> string list"

definition initializeTemplates :: "string \<rightharpoonup> string list" where
  "initializeTemplates =
     [''caller_name+phone_number'' \<mapsto>
        [''Great! Can you please tell me your name and phone number?'',
         ''I'd like to get your name and contact number, please.'',
         ''Could you provide your name and a phone number where I can reach you?''],
      ''day_preference+time_preference'' \<mapsto>
        [''What day and time would work best for your appointment?'',
         ''When would you prefer to schedule this? What day and time?'',
         ''Could you let me know your preferred day and time?''],
      ''service_type+time_preference'' \<mapsto>
        [''What service are you looking for and what time would work for you?'',
         ''Which service do you need and when would you prefer to come in?'',
         ''What type of appointment do you need and what time works best?''],
      ''caller_name'' \<mapsto>
        [''May I have your name, please?'',
         ''Could you tell me your name?'',
         ''What name should I put this appointment under?''],
      ''phone_number'' \<mapsto>
        [''What's the best phone number to reach you at?'',
         ''Could I get a contact number for you?'',
         ''What phone number should I use for this appointment?''],
      ''day_preference'' \<mapsto>
        [''What day would work best for you?'',
         ''Which day would you prefer for your appointment?'',
         ''What day are you looking to schedule this?''],
      ''time_preference'' \<mapsto>
        [''What time would work best for you?'',
         ''Do you have a preferred time?'',
         ''What time would you like to come in?''],
      ''service_type'' \<mapsto>
        [''What service are you looking for today?'',
         ''Which service do you need?'',
         ''What type of appointment would you like to schedule?'']]"

text \<open>
  The constructor. \<open>hardware_concurrency\<close> is the value of
  \<^verbatim>\<open>std::thread::hardware_concurrency()\<close>.
\<close>

definition ComposerCrew_new :: "'s LLMInterface option \<Rightarrow> int \<Rightarrow> nat \<Rightarrow> 's ComposerCrew" where
  "ComposerCrew_new llm num_threads hardware_concurrency =
     \<lparr>llm_interface = llm, quality_threshold = 0.7, max_retries = 2,
      num_worker_threads =
        (if num_threads \<le> 0 then int (max 1 (hardware_concurrency div 2)) else num_threads),
      entity_templates = initializeTemplates\<rparr>"

text \<open>
  \<^verbatim>\<open>generateWithLLM\<close>: the result starts as the default one; an empty question leaves it
  so; an exception from either call is caught and sets \<^verbatim>\<open>is_valid = false\<close> on whatever
  was assigned before it.
\<close>

definition generateWithLLM ::
  "'s LLMInterface \<Rightarrow> CompositionRequest \<Rightarrow> 's \<Rightarrow> CompositionResult \<times> 's" where
  "generateWithLLM llm request s =
     (case generateQuestion llm request s of
        (None, s1) \<Rightarrow> (CompositionResult_default\<lparr>is_valid := False\<rparr>, s1)
      | (Some question, s1) \<Rightarrow>
          if question \<noteq> [] then
            (case assessQuestionQuality llm question request s1 of
               (None, s2) \<Rightarrow>
                 (CompositionResult_default
                    \<lparr>generated_question := question, generation_method := ''llm_primary'',
                     is_valid := False\<rparr>, s2)
             | (Some q, s2) \<Rightarrow>
                 (CompositionResult_default
                    \<lparr>generated_question := question, generation_method := ''llm_primary'',
                     quality_score := q, is_valid := True\<rparr>, s2))
          else (CompositionResult_default, s1))"

text \<open>
  \<^verbatim>\<open>generateWithTemplate\<close>. The variant is drawn by a
  \<^verbatim>\<open>uniform_int_distribution\<close> over the indices of the key's variants; \<open>rnd\<close> is the
  draw, taken modulo the number of variants.
\<close>

definition generateWithTemplate ::
  "'s ComposerCrew \<Rightarrow> nat \<Rightarrow> CompositionRequest \<Rightarrow> CompositionResult" where
  "generateWithTemplate crew rnd request =
     (let me = missing_entities request;
          template_key =
            (if length me = 2 then me ! 0 @ ''+'' @ me ! 1
             else if length me = 1 then me ! 0
             else []);
          generic = CompositionResult_default
            \<lparr>generated_question := ''Could you please provide some additional information?'',
             quality_score := 0.5, is_valid := True, generation_method := ''template_fallback''\<rparr>
      in case entity_templates crew template_key of
           None \<Rightarrow> generic
         | Some variants \<Rightarrow>
             if variants \<noteq> [] then
               CompositionResult_default
                 \<lparr>generated_question := variants ! (rnd mod length variants),
                  quality_score := 0.8, is_valid := True, generation_method := ''template''\<rparr>
             else generic)"

text \<open>
  The retry loop of \<^verbatim>\<open>composeQuestion\<close>:
  \<^verbatim>\<open>for (int retry = 0; retry < max_retries; ++retry)\<close>, which leaves at the first retry
  whose score is above the current one.
\<close>

function retry_loop ::
  "'s LLMInterface \<Rightarrow> CompositionRequest \<Rightarrow> int \<Rightarrow> int \<Rightarrow> CompositionResult \<Rightarrow> 's
   \<Rightarrow> CompositionResult \<times> 's" where
  "retry_loop llm request maxr retry result s =
     (if retry < maxr then
        (case generateWithLLM llm request s of
           (retry_result, s') \<Rightarrow>
             if quality_score retry_result > quality_score result then (retry_result, s')
             else retry_loop llm request maxr (retry + 1) result s')
      else (result, s))"
  by pat_completeness auto
termination
  by (relation "measure (\<lambda>(llm, request, maxr, retry, result, s). nat (maxr - retry))") auto

text \<open>
  \<^verbatim>\<open>composeQuestion\<close>. The block that tries the generator calls \<^verbatim>\<open>isAvailable\<close>
  outside any \<^verbatim>\<open>try\<close>: an exception from it leaves \<^verbatim>\<open>composeQuestion\<close>, and the
  outcome of the block is \<open>None\<close>. The exceptions of the two generation calls are caught
  inside \<^verbatim>\<open>generateWithLLM\<close>.
\<close>

definition composeQuestion ::
  "'s ComposerCrew \<Rightarrow> nat \<Rightarrow> CompositionRequest \<Rightarrow> 's \<Rightarrow> CompositionResult option \<times> 's" where
  "composeQuestion crew rnd request s =
     (let limited_request =
            (if length (missing_entities request) > 2
             then request\<lparr>missing_entities := take 2 (missing_entities request)\<rparr>
             else request);
          (tried, s') =
            (case llm_interface crew of
               None \<Rightarrow> (Some CompositionResult_default, s)
             | Some llm \<Rightarrow>
                 (case isAvailable llm s of
                    (None, s0) \<Rightarrow> (None, s0)
                  | (Some False, s0) \<Rightarrow> (Some CompositionResult_default, s0)
                  | (Some True, s0) \<Rightarrow>
                      (case generateWithLLM llm limited_request s0 of
                         (result, s1) \<Rightarrow>
                           if is_valid result \<and> quality_score result < quality_threshold crew
                           then (case retry_loop llm limited_request (max_retries crew) 0 result s1 of
                                   (result', s2) \<Rightarrow> (Some result', s2))
                           else (Some result, s1))))
      in case tried of
           None \<Rightarrow> (None, s')
         | Some result \<Rightarrow>
             (let result =
                    (if \<not> is_valid result \<or> quality_score result < quality_threshold crew
                     then generateWithTemplate crew rnd limited_request
                     else result)
              in (Some (result\<lparr>targeted_entities := missing_entities limited_request\<rparr>), s')))"

text \<open>
  The task that \<^verbatim>\<open>composeQuestionAsync\<close> puts on the queue: it catches an exception of
  \<^verbatim>\<open>composeQuestion\<close> and fulfils the promise with an apology that is not valid.
\<close>

definition composeQuestionAsync_task ::
  "'s ComposerCrew \<Rightarrow> nat \<Rightarrow> CompositionRequest \<Rightarrow> 's \<Rightarrow> CompositionResult \<times> 's" where
  "composeQuestionAsync_task crew rnd request s =
     (case composeQuestion crew rnd request s of
        (Some result, s') \<Rightarrow> (result, s')
      | (None, s') \<Rightarrow>
          (CompositionResult_default
             \<lparr>generated_question :=
                ''I apologize, but I'm having trouble generating a question right now.'',
              is_valid := False\<rparr>, s'))"

text \<open>
  \<^verbatim>\<open>areEntitiesRelated\<close> walks the list of related pairs and accepts either orientation.
\<close>

definition related_pairs :: "(string \<times> string) list" where
  "related_pairs =
     [(''caller_name'', ''phone_number''),
      (''day_preference'', ''time_preference''),
      (''service_type'', ''time_preference''),
      (''service_type'', ''day_preference'')]"

fun related_in :: "(string \<times> string) list \<Rightarrow> string \<Rightarrow> string \<Rightarrow> bool" where
  "related_in [] entity1 entity2 = False"
| "related_in (pair # pairs) entity1 entity2 =
     (if (entity1 = fst pair \<and> entity2 = snd pair) \<or> (entity1 = snd pair \<and> entity2 = fst pair)
      then True else related_in pairs entity1 entity2)"

definition areEntitiesRelated :: "string \<Rightarrow> string \<Rightarrow> bool" where
  "areEntitiesRelated entity1 entity2 = related_in related_pairs entity1 entity2"

text \<open>
  The inner loop of \<^verbatim>\<open>groupMissingEntities\<close>: the iterator walks \<open>remaining\<close>; at the first
  entity related to the seed it is appended to the group and erased from \<open>remaining\<close>, and
  the loop is left. The result is the group and what remains.
\<close>

fun pair_with_related :: "string list \<Rightarrow> string list \<Rightarrow> string list \<times> string list" where
  "pair_with_related grp [] = (grp, [])"
| "pair_with_related grp (e # rest) =
     (if areEntitiesRelated (grp ! 0) e then (grp @ [e], rest)
      else (case pair_with_related grp rest of (g, r) \<Rightarrow> (g, e # r)))"

text \<open>
  The outer loop, \<^verbatim>\<open>while (!remaining.empty())\<close>, with the groups made so far.
\<close>

function group_loop :: "string list list \<Rightarrow> string list \<Rightarrow> string list list" where
  "group_loop groups remaining =
     (if remaining \<noteq> [] then
        (case pair_with_related [remaining ! 0] (tl remaining) of
           (grp, remaining') \<Rightarrow> group_loop (groups @ [grp]) remaining')
      else groups)"
  by pat_completeness auto
termination
proof (relation "measure (\<lambda>(groups, remaining). length remaining)", goal_cases)
  case 1
  show ?case by simp
next
  case (2 groups remaining grp remaining')
  have shorter: "length (snd (pair_with_related g r)) \<le> length r" for g r
    by (induction r) (auto split: prod.splits)
  from 2(2) have "remaining' = snd (pair_with_related [remaining ! 0] (tl remaining))"
    by (metis snd_conv)
  with shorter [of "[remaining ! 0]" "tl remaining"] 2(1) show ?case
    by (cases remaining) auto
qed

definition groupMissingEntities :: "string list \<Rightarrow> string list list" where
  "groupMissingEntities missing = group_loop [] missing"

text \<open>
  \<^verbatim>\<open>adjustThreadCount\<close> stops the workers, stores the new count and starts that many
  workers again; of this, the stored count is what the model keeps.
\<close>

definition adjustThreadCount :: "int \<Rightarrow> 's ComposerCrew \<Rightarrow> 's ComposerCrew" where
  "adjustThreadCount new_count crew =
     (if new_count \<noteq> num_worker_threads crew then crew\<lparr>num_worker_threads := new_count\<rparr>
      else crew)"

definition setQualityThreshold :: "real \<Rightarrow> 's ComposerCrew \<Rightarrow> 's ComposerCrew" where
  "setQualityThreshold threshold crew = crew\<lparr>quality_threshold := threshold\<rparr>"

definition setMaxRetries :: "int \<Rightarrow> 's ComposerCrew \<Rightarrow> 's ComposerCrew" where
  "setMaxRetries retries crew = crew\<lparr>max_retries := retries\<rparr>"

section \<open>composer.cpp: EntityStateManager\<close>

text \<open>
  Every method takes the manager's mutex for its whole body, so each is one atomic step
  on the two fields.
\<close>

record EntityStateManager =
  entity_values :: "string \<rightharpoonup> string"
  required_entities :: "string list"

definition EntityStateManager_new :: EntityStateManager where
  "EntityStateManager_new =
     \<lparr>entity_values = Map.empty,
      required_entities =
        [''caller_name'', ''phone_number'', ''day_preference'', ''time_preference'',
         ''service_type'']\<rparr>"

definition updateEntity :: "string \<Rightarrow> string \<Rightarrow> EntityStateManager \<Rightarrow> EntityStateManager" where
  "updateEntity entity_name v m = m\<lparr>entity_values := (entity_values m)(entity_name \<mapsto> v)\<rparr>"

definition getEntity :: "EntityStateManager \<Rightarrow> string \<Rightarrow> string" where
  "getEntity m entity_name =
     (case entity_values m entity_name of Some v \<Rightarrow> v | None \<Rightarrow> [])"

definition hasEntity :: "EntityStateManager \<Rightarrow> string \<Rightarrow> bool" where
  "hasEntity m entity_name =
     (case entity_values m entity_name of Some v \<Rightarrow> v \<noteq> [] | None \<Rightarrow> False)"

fun missing_loop :: "(string \<rightharpoonup> string) \<Rightarrow> string list \<Rightarrow> string list \<Rightarrow> string list" where
  "missing_loop vals [] missing = missing"
| "missing_loop vals (entity # rest) missing =
     missing_loop vals rest
       (case vals entity of
          None \<Rightarrow> missing @ [entity]
        | Some v \<Rightarrow> if v = [] then missing @ [entity] else missing)"

definition getMissingEntities :: "EntityStateManager \<Rightarrow> string list" where
  "getMissingEntities m = missing_loop (entity_values m) (required_entities m) []"

definition getKnownEntities :: "EntityStateManager \<Rightarrow> (string \<rightharpoonup> string)" where
  "getKnownEntities m =
     (\<lambda>k. case entity_values m k of
            Some v \<Rightarrow> if v \<noteq> [] then Some v else None
          | None \<Rightarrow> None)"

definition isComplete :: "EntityStateManager \<Rightarrow> bool" where
  "isComplete m = (getMissingEntities m = [])"

text \<open>
  \<^verbatim>\<open>updateMultipleEntities\<close> assigns every pair of the argument map in its iteration
  order; \<open>updates\<close> is that sequence of pairs (the keys of a map are distinct).
\<close>

fun updateMultipleEntities ::
  "(string \<times> string) list \<Rightarrow> EntityStateManager \<Rightarrow> EntityStateManager" where
  "updateMultipleEntities [] m = m"
| "updateMultipleEntities (pair # updates) m =
     updateMultipleEntities updates
       (m\<lparr>entity_values := (entity_values m)(fst pair \<mapsto> snd pair)\<rparr>)"

definition reset :: "EntityStateManager \<Rightarrow> EntityStateManager" where
  "reset m = m\<lparr>entity_values := Map.empty\<rparr>"

definition setRequiredEntities :: "string list \<Rightarrow> EntityStateManager \<Rightarrow> EntityStateManager" where
  "setRequiredEntities entities m = m\<lparr>required_entities := entities\<rparr>"

text \<open>
  The calls that change the stored values, for sequences of them.
\<close>

datatype apply_call =
  UpdateEntity string string
| UpdateMultipleEntities "(string \<times> string) list"

fun run_call :: "apply_call \<Rightarrow> EntityStateManager \<Rightarrow> EntityStateManager" where
  "run_call (UpdateEntity entity_name v) m = updateEntity entity_name v m"
| "run_call (UpdateMultipleEntities updates) m = updateMultipleEntities updates m"

fun run_calls :: "apply_call list \<Rightarrow> EntityStateManager \<Rightarrow> EntityStateManager" where
  "run_calls [] m = m"
| "run_calls (c # cs) m = run_calls cs (run_call c m)"

fun call_values :: "apply_call \<Rightarrow> string list" where
  "call_values (UpdateEntity entity_name v) = [v]"
| "call_values (UpdateMultipleEntities updates) = map snd updates"

section \<open>closer.h and closer.cpp: CloserCrew\<close>

text \<open>
  The closer's records and methods share names with the composer's; those carry the
  suffix \<open>_closer\<close> or \<open>_closing\<close> here.
\<close>

record ClosingRequest =
  complete_entities :: "string \<rightharpoonup> string"
  conversation_summary :: string
  business_context :: string

record ClosingResult =
  closing_message :: string
  appointment_summary :: string
  confirmation_details :: string
  needs_followup :: bool
  next_steps :: "string list"
  confidence_score :: real
  is_valid_closing :: bool
  generation_method_closing :: string

definition ClosingResult_default :: ClosingResult where
  "ClosingResult_default =
     \<lparr>closing_message = [], appointment_summary = [], confirmation_details = [],
      needs_followup = False, next_steps = [], confidence_score = 0,
      is_valid_closing = False, generation_method_closing = ''none''\<rparr>"

record 's CloserCrew =
  llm_interface_closer :: "'s LLMInterface option"
  confidence_threshold :: real
  max_retries_closer :: int
  closing_templates :: "string \<rightharpoonup> string list"
  confirmation_templates :: "string \<rightharpoonup> string list"

definition initializeClosingTemplates :: "string \<rightharpoonup> string list" where
  "initializeClosingTemplates =
     [''standard'' \<mapsto>
        [''Perfect! I have all the information I need. Let me confirm your appointment:'',
         ''Excellent! I've got everything we need to schedule your appointment:'',
         ''Great! Here's a summary of your appointment request:''],
      ''needs_confirmation'' \<mapsto>
        [''I have all the details for your appointment. Let me just confirm everything with you:'',
         ''Perfect! Before we finalize, let me read back your appointment details:'',
         ''Excellent! Here's what I have scheduled for you - please confirm:'']]"

definition initializeConfirmationTemplates :: "string \<rightharpoonup> string list" where
  "initializeConfirmationTemplates =
     [''standard'' \<mapsto>
        [''Your appointment has been confirmed! You'll receive a confirmation text shortly.'',
         ''All set! We've confirmed your appointment and will send you a reminder.'',
         ''Perfect! Your appointment is confirmed. You should receive a confirmation message soon.''],
      ''with_followup'' \<mapsto>
        [''Your appointment request has been received! We'll call you back within 24 hours to confirm the exact time.'',
         ''Thank you! We have your request and will contact you shortly to finalize the details.'',
         ''Got it! We'll reach out to you soon to confirm your preferred time slot.''],
      ''needs_callback'' \<mapsto>
        [''Thanks for the information! Someone from our team will call you back to confirm availability.'',
         ''We have your details! Our scheduler will contact you to confirm your appointment time.'',
         ''Perfect! We'll have someone call you back to verify the appointment details.'']]"

definition CloserCrew_new :: "'s LLMInterface option \<Rightarrow> 's CloserCrew" where
  "CloserCrew_new llm =
     \<lparr>llm_interface_closer = llm, confidence_threshold = 0.8, max_retries_closer = 2,
      closing_templates = initializeClosingTemplates,
      confirmation_templates = initializeConfirmationTemplates\<rparr>"

text \<open>
  \<^verbatim>\<open>entities[key]\<close> on the local copy of the map: the stored string, or a new empty one.
\<close>

definition at_key :: "(string \<rightharpoonup> string) \<Rightarrow> string \<Rightarrow> string" where
  "at_key entities k = (case entities k of Some v \<Rightarrow> v | None \<Rightarrow> [])"

text \<open>\<^verbatim>\<open>text.find(pattern) != std::string::npos\<close>.\<close>

fun starts_with :: "string \<Rightarrow> string \<Rightarrow> bool" where
  "starts_with txt [] = True"
| "starts_with [] (p # ps) = False"
| "starts_with (c # cs) (p # ps) = (c = p \<and> starts_with cs ps)"

fun contains :: "string \<Rightarrow> string \<Rightarrow> bool" where
  "contains [] pattern = (pattern = [])"
| "contains (c # cs) pattern = (starts_with (c # cs) pattern \<or> contains cs pattern)"

definition needsFollowup :: "ClosingRequest \<Rightarrow> bool" where
  "needsFollowup request =
     (let entities = complete_entities request in
      if entities ''time_preference'' = None then True
      else (let time_pref = at_key entities ''time_preference'' in
            if contains time_pref ''morning'' \<or> contains time_pref ''afternoon''
               \<or> contains time_pref ''evening''
            then True else False))"

text \<open>
  The phone pattern
  \<^verbatim>\<open>\d{3}-\d{3}-\d{4}|\(\d{3}\)\s*\d{3}-\d{4}|\d{10}\<close>, matched against the whole
  string by \<^verbatim>\<open>std::regex_match\<close>. After \<^verbatim>\<open>\s*\<close> comes a digit, so the white space
  it takes is all the white space there.
\<close>

definition is_digit :: "char \<Rightarrow> bool" where
  "is_digit c = (c \<in> set ''0123456789'')"

definition is_space :: "char \<Rightarrow> bool" where
  "is_space c = (c \<in> set [CHR '' '', CHR 0x09, CHR 0x0A, CHR 0x0B, CHR 0x0C, CHR 0x0D])"

definition digits :: "nat \<Rightarrow> string \<Rightarrow> bool" where
  "digits n txt = (length txt = n \<and> list_all is_digit txt)"

definition local_number :: "string \<Rightarrow> bool" where
  "local_number txt =
     (length txt = 8 \<and> digits 3 (take 3 txt) \<and> txt ! 3 = CHR ''-'' \<and> digits 4 (drop 4 txt))"

definition isValidPhoneNumber :: "string \<Rightarrow> bool" where
  "isValidPhoneNumber phone_no =
     ((length phone_no = 12 \<and> digits 3 (take 3 phone_no) \<and> phone_no ! 3 = CHR ''-''
         \<and> local_number (drop 4 phone_no))
      \<or> (5 \<le> length phone_no \<and> phone_no ! 0 = CHR ''('' \<and> digits 3 (take 3 (drop 1 phone_no))
         \<and> phone_no ! 4 = CHR '')'' \<and> local_number (dropWhile is_space (drop 5 phone_no)))
      \<or> digits 10 phone_no)"

definition isValidName :: "string \<Rightarrow> bool" where
  "isValidName caller = (caller \<noteq> [] \<and> length caller \<ge> 2 \<and> length caller \<le> 50)"

definition isValidTimeSlot :: "string \<Rightarrow> string \<Rightarrow> bool" where
  "isValidTimeSlot day_pref time_pref =
     (let valid_days = [''Monday'', ''Tuesday'', ''Wednesday'', ''Thursday'', ''Friday'',
                        ''Saturday'', ''Sunday''];
          valid_day = (day_pref \<in> set valid_days);
          valid_time = (time_pref \<noteq> [])
      in valid_day \<and> valid_time)"

fun required_present :: "(string \<rightharpoonup> string) \<Rightarrow> string list \<Rightarrow> bool" where
  "required_present entities [] = True"
| "required_present entities (field # rest) =
     (if entities field = None \<or> at_key entities field = [] then False
      else required_present entities rest)"

definition validateAppointmentData :: "ClosingRequest \<Rightarrow> bool" where
  "validateAppointmentData request =
     (let entities = complete_entities request;
          required = [''caller_name'', ''phone_number'', ''day_preference'',
                      ''time_preference'', ''service_type'']
      in if \<not> required_present entities required then False
         else if \<not> isValidName (at_key entities ''caller_name'') then False
         else if \<not> isValidPhoneNumber (at_key entities ''phone_number'') then False
         else if \<not> isValidTimeSlot (at_key entities ''day_preference'')
                                     (at_key entities ''time_preference'') then False
         else True)"

text \<open>
  \<^verbatim>\<open>std::to_string\<close> of a non-negative number, and the confirmation number: \<open>rnd\<close> is
  the draw of the \<^verbatim>\<open>uniform_int_distribution\<close> over 100000 to 999999.
\<close>

function to_string :: "nat \<Rightarrow> string" where
  "to_string n =
     (if n < 10 then [''0123456789'' ! n]
      else to_string (n div 10) @ [''0123456789'' ! (n mod 10)])"
  by pat_completeness auto
termination
  by (relation "measure (\<lambda>n. n)") auto

definition generateConfirmationNumber :: "nat \<Rightarrow> string" where
  "generateConfirmationNumber rnd = ''APT'' @ to_string (100000 + rnd mod 900000)"

text \<open>
  The template selectors: \<open>rnd\<close> is the draw over the indices of the key's variants.
\<close>

definition selectClosingTemplate :: "'s CloserCrew \<Rightarrow> nat \<Rightarrow> ClosingRequest \<Rightarrow> string" where
  "selectClosingTemplate crew rnd request =
     (let template_key = (if needsFollowup request then ''needs_confirmation'' else ''standard'')
      in case closing_templates crew template_key of
           Some variants \<Rightarrow>
             if variants \<noteq> [] then variants ! (rnd mod length variants)
             else ''Thank you for scheduling your appointment!''
         | None \<Rightarrow> ''Thank you for scheduling your appointment!'')"

definition selectConfirmationTemplate :: "'s CloserCrew \<Rightarrow> nat \<Rightarrow> ClosingRequest \<Rightarrow> string" where
  "selectConfirmationTemplate crew rnd request =
     (let template_key = (if needsFollowup request then ''with_followup'' else ''standard'')
      in case confirmation_templates crew template_key of
           Some variants \<Rightarrow>
             if variants \<noteq> [] then variants ! (rnd mod length variants)
             else ''We'll be in touch soon!''
         | None \<Rightarrow> ''We'll be in touch soon!'')"

text \<open>
  The heading of the details starts with the four bytes of a clipboard sign in UTF-8.
\<close>

definition formatAppointmentDetails :: "ClosingRequest \<Rightarrow> string" where
  "formatAppointmentDetails request =
     (let entities = complete_entities request in
      [CHR 0xF0, CHR 0x9F, CHR 0x93, CHR 0x8B] @ '' Appointment Details:'' @ [CHR 0x0A]
      @ ''   Name: '' @ at_key entities ''caller_name'' @ [CHR 0x0A]
      @ ''   Phone: '' @ at_key entities ''phone_number'' @ [CHR 0x0A]
      @ ''   Service: '' @ at_key entities ''service_type'' @ [CHR 0x0A]
      @ ''   Day: '' @ at_key entities ''day_preference'' @ [CHR 0x0A]
      @ ''   Time: '' @ at_key entities ''time_preference'')"

definition generateNextSteps :: "ClosingRequest \<Rightarrow> string list" where
  "generateNextSteps request =
     (if needsFollowup request then
        [''Wait for confirmation call within 24 hours'',
         ''Keep your phone available for our call'',
         ''Prepare any questions about the service'']
      else
        [''Watch for confirmation text message'',
         ''Arrive 10 minutes early for your appointment'',
         ''Bring valid ID if this is your first visit''])"

text \<open>
  \<^verbatim>\<open>CloserCrew::generateWithLLM\<close> asks the generator with a composition request that has
  no missing entity and the complete entities as the known ones.
\<close>

definition generateWithLLM_closer ::
  "'s LLMInterface \<Rightarrow> ClosingRequest \<Rightarrow> 's \<Rightarrow> ClosingResult \<times> 's" where
  "generateWithLLM_closer llm request s =
     (let comp = \<lparr>missing_entities = [], known_entities = complete_entities request,
                  conversation_context = []\<rparr>
      in case generateQuestion llm comp s of
           (None, s1) \<Rightarrow> (ClosingResult_default\<lparr>is_valid_closing := False\<rparr>, s1)
         | (Some closing, s1) \<Rightarrow>
             if closing \<noteq> [] then
               (case assessQuestionQuality llm closing comp s1 of
                  (None, s2) \<Rightarrow>
                    (ClosingResult_default
                       \<lparr>closing_message := closing, generation_method_closing := ''llm_primary'',
                        is_valid_closing := False\<rparr>, s2)
                | (Some q, s2) \<Rightarrow>
                    (ClosingResult_default
                       \<lparr>closing_message := closing, generation_method_closing := ''llm_primary'',
                        confidence_score := q, is_valid_closing := True\<rparr>, s2))
             else (ClosingResult_default, s1))"

text \<open>
  \<^verbatim>\<open>CloserCrew::generateWithTemplate\<close>. Nothing in its \<^verbatim>\<open>try\<close> block throws in this
  model (the selectors and the formatting are total), so its \<^verbatim>\<open>catch\<close> branch, the only
  place that sets \<^verbatim>\<open>template_fallback\<close>, is not reached. \<open>rnd1\<close> and \<open>rnd2\<close> are the
  draws of the two selectors.
\<close>

definition generateWithTemplate_closer ::
  "'s CloserCrew \<Rightarrow> nat \<Rightarrow> nat \<Rightarrow> ClosingRequest \<Rightarrow> ClosingResult" where
  "generateWithTemplate_closer crew rnd1 rnd2 request =
     (let closing_template = selectClosingTemplate crew rnd1 request;
          confirmation_template = selectConfirmationTemplate crew rnd2 request
      in ClosingResult_default
           \<lparr>closing_message :=
              closing_template @ [CHR 0x0A, CHR 0x0A] @ formatAppointmentDetails request
              @ [CHR 0x0A, CHR 0x0A] @ confirmation_template,
            confidence_score := 0.85, is_valid_closing := True,
            generation_method_closing := ''template''\<rparr>)"

function retry_loop_closer ::
  "'s LLMInterface \<Rightarrow> ClosingRequest \<Rightarrow> int \<Rightarrow> int \<Rightarrow> ClosingResult \<Rightarrow> 's
   \<Rightarrow> ClosingResult \<times> 's" where
  "retry_loop_closer llm request maxr retry result s =
     (if retry < maxr then
        (case generateWithLLM_closer llm request s of
           (retry_result, s') \<Rightarrow>
             if confidence_score retry_result > confidence_score result then (retry_result, s')
             else retry_loop_closer llm request maxr (retry + 1) result s')
      else (result, s))"
  by pat_completeness auto
termination
  by (relation "measure (\<lambda>(llm, request, maxr, retry, result, s). nat (maxr - retry))") auto

text \<open>
  \<^verbatim>\<open>generateClosing\<close>. When the validation fails it returns the template closing at once,
  before the four assignments at its end. As in the composer, \<^verbatim>\<open>isAvailable\<close> is called
  outside any \<^verbatim>\<open>try\<close>, and an exception from it leaves the function. \<open>rnd3\<close> is the
  draw of the confirmation number.
\<close>

definition generateClosing ::
  "'s CloserCrew \<Rightarrow> nat \<Rightarrow> nat \<Rightarrow> nat \<Rightarrow> ClosingRequest \<Rightarrow> 's
   \<Rightarrow> ClosingResult option \<times> 's" where
  "generateClosing crew rnd1 rnd2 rnd3 request s =
     (if \<not> validateAppointmentData request
      then (Some (generateWithTemplate_closer crew rnd1 rnd2 request), s)
      else
        (let (tried, s') =
               (case llm_interface_closer crew of
                  None \<Rightarrow> (Some ClosingResult_default, s)
                | Some llm \<Rightarrow>
                    (case isAvailable llm s of
                       (None, s0) \<Rightarrow> (None, s0)
                     | (Some False, s0) \<Rightarrow> (Some ClosingResult_default, s0)
                     | (Some True, s0) \<Rightarrow>
                         (case generateWithLLM_closer llm request s0 of
                            (result, s1) \<Rightarrow>
                              if is_valid_closing result
                                 \<and> confidence_score result < confidence_threshold crew
                              then (case retry_loop_closer llm request (max_retries_closer crew) 0
                                           result s1 of
                                      (result', s2) \<Rightarrow> (Some result', s2))
                              else (Some result, s1))))
         in case tried of
              None \<Rightarrow> (None, s')
            | Some result \<Rightarrow>
                (let result =
                       (if \<not> is_valid_closing result
                           \<or> confidence_score result < confidence_threshold crew
                        then generateWithTemplate_closer crew rnd1 rnd2 request
                        else result)
                 in (Some (result\<lparr>appointment_summary := formatAppointmentDetails request,
                                   confirmation_details := generateConfirmationNumber rnd3,
                                   next_steps := generateNextSteps request,
                                   needs_followup := needsFollowup request\<rparr>), s'))))"

section \<open>\<^verbatim>\<open>advanced_session_controller_og.cpp\<close>: AdvancedSessionController\<close>

text \<open>
  The classifier and the extractor run statistical models that are outside this
  development: each is a function from the sentence to its list of results. Fields that
  two result records share carry a suffix in the later record. The durations of the
  performance metrics are not modelled.
\<close>

record ClassificationResult =
  entity_name :: string
  confidence :: real
  detected :: bool

record ExtractionResult =
  entity_name_x :: string
  extracted_value :: string
  ner_confidence :: real
  found :: bool
  method_used :: string

record EntityProcessingResult =
  entity_name_p :: string
  detected_p :: bool
  classification_confidence :: real
  extracted_value_p :: string
  extracted :: bool
  extraction_method :: string

record PerformanceMetrics =
  concurrent_tasks :: int
  cpu_cores_used :: int

record ProcessingResult =
  entity_results :: "EntityProcessingResult list"
  composition_result :: CompositionResult
  closing_result :: ClosingResult
  composition_triggered :: bool
  closing_triggered :: bool
  metrics :: PerformanceMetrics

record 's AdvancedSessionController =
  classifier :: "string \<Rightarrow> ClassificationResult list"
  extractor :: "string \<Rightarrow> string list \<Rightarrow> ExtractionResult list"
  composer :: "'s ComposerCrew"
  closer :: "'s CloserCrew option"
  entity_manager :: EntityStateManager
  total_cpu_cores :: int
  classification_threads :: int
  extraction_threads :: int
  composition_threads :: int
  active_processing_tasks :: int

definition optimizeThreadAllocation ::
  "'s AdvancedSessionController \<Rightarrow> 's AdvancedSessionController" where
  "optimizeThreadAllocation ctl =
     (if total_cpu_cores ctl \<ge> 8 then
        ctl\<lparr>classification_threads := 2, extraction_threads := 2, composition_threads := 2\<rparr>
      else if total_cpu_cores ctl \<ge> 4 then
        ctl\<lparr>classification_threads := 1, extraction_threads := 2, composition_threads := 1\<rparr>
      else
        ctl\<lparr>classification_threads := 1, extraction_threads := 1, composition_threads := 1\<rparr>)"

text \<open>
  The constructor. It reads the number of cores, allots the threads, and then makes the
  managers and the crews; the closer is left null (its construction is commented out in
  the source). The record is first written with the thread counts at zero and a composer
  that is replaced in the last step, since a record has a value in every field.
  \<open>hardware_concurrency\<close> is the number of cores the system reports.
\<close>

definition AdvancedSessionController_new ::
  "(string \<Rightarrow> ClassificationResult list) \<Rightarrow> (string \<Rightarrow> string list \<Rightarrow> ExtractionResult list)
   \<Rightarrow> 's LLMInterface option \<Rightarrow> nat \<Rightarrow> 's AdvancedSessionController" where
  "AdvancedSessionController_new classify extract llm hardware_concurrency =
     (let ctl = optimizeThreadAllocation
            \<lparr>classifier = classify, extractor = extract,
             composer = ComposerCrew_new None 1 hardware_concurrency, closer = None,
             entity_manager = EntityStateManager_new,
             total_cpu_cores = int hardware_concurrency,
             classification_threads = 0, extraction_threads = 0, composition_threads = 0,
             active_processing_tasks = 0\<rparr>
      in ctl\<lparr>composer := ComposerCrew_new llm (composition_threads ctl) hardware_concurrency\<rparr>)"

text \<open>The controller's own copy of the relation and of the grouping loops.\<close>

definition related_pairs_controller :: "(string \<times> string) list" where
  "related_pairs_controller =
     [(''caller_name'', ''phone_number''),
      (''day_preference'', ''time_preference''),
      (''service_type'', ''time_preference''),
      (''service_type'', ''day_preference'')]"

definition areEntitiesRelated_controller :: "string \<Rightarrow> string \<Rightarrow> bool" where
  "areEntitiesRelated_controller entity1 entity2 =
     related_in related_pairs_controller entity1 entity2"

fun pair_with_related_controller ::
  "string list \<Rightarrow> string list \<Rightarrow> string list \<times> string list" where
  "pair_with_related_controller grp [] = (grp, [])"
| "pair_with_related_controller grp (e # rest) =
     (if areEntitiesRelated_controller (grp ! 0) e then (grp @ [e], rest)
      else (case pair_with_related_controller grp rest of (g, r) \<Rightarrow> (g, e # r)))"

function group_loop_controller :: "string list list \<Rightarrow> string list \<Rightarrow> string list list" where
  "group_loop_controller groups remaining =
     (if remaining \<noteq> [] then
        (case pair_with_related_controller [remaining ! 0] (tl remaining) of
           (grp, remaining') \<Rightarrow> group_loop_controller (groups @ [grp]) remaining')
      else groups)"
  by pat_completeness auto
termination
proof (relation "measure (\<lambda>(groups, remaining). length remaining)", goal_cases)
  case 1
  show ?case by simp
next
  case (2 groups remaining grp remaining')
  have shorter: "length (snd (pair_with_related_controller g r)) \<le> length r" for g r
    by (induction r) (auto split: prod.splits)
  from 2(2) have "remaining' = snd (pair_with_related_controller [remaining ! 0] (tl remaining))"
    by (metis snd_conv)
  with shorter [of "[remaining ! 0]" "tl remaining"] 2(1) show ?case
    by (cases remaining) auto
qed

definition groupEntitiesForComposition :: "string list \<Rightarrow> string list list" where
  "groupEntitiesForComposition missing = group_loop_controller [] missing"

text \<open>
  \<^verbatim>\<open>combineResults\<close>: one combined result per classification, with the fields of the
  first extraction result of the same entity, when there is one.
\<close>

fun first_extraction :: "ExtractionResult list \<Rightarrow> string \<Rightarrow> ExtractionResult option" where
  "first_extraction [] n = None"
| "first_extraction (extraction # rest) n =
     (if entity_name_x extraction = n then Some extraction else first_extraction rest n)"

definition combineResults ::
  "ClassificationResult list \<Rightarrow> ExtractionResult list \<Rightarrow> EntityProcessingResult list" where
  "combineResults classification_results extraction_results =
     map (\<lambda>classification.
            (let combined_result =
                   \<lparr>entity_name_p = entity_name classification,
                    detected_p = detected classification,
                    classification_confidence = confidence classification,
                    extracted_value_p = [], extracted = False, extraction_method = ''none''\<rparr>
             in case first_extraction extraction_results (entity_name classification) of
                  None \<Rightarrow> combined_result
                | Some extraction \<Rightarrow>
                    combined_result\<lparr>extracted := found extraction,
                                    extracted_value_p := extracted_value extraction,
                                    extraction_method := method_used extraction\<rparr>))
         classification_results"

text \<open>Phase 3 of \<^verbatim>\<open>processInput\<close>: the found values are stored one by one.\<close>

fun store_found :: "ExtractionResult list \<Rightarrow> EntityStateManager \<Rightarrow> EntityStateManager" where
  "store_found [] m = m"
| "store_found (ext_result # rest) m =
     store_found rest
       (if found ext_result then updateEntity (entity_name_x ext_result) (extracted_value ext_result) m
        else m)"

text \<open>
  \<^verbatim>\<open>processInput\<close>. The composition task runs beside the main thread, which stores the
  extracted values meanwhile; the task reads the known entities once, under the manager's
  lock, after some number \<open>k\<close> of the extraction results have been handled. \<open>rnd\<close> is the
  draw of the composer's template. An exception of \<^verbatim>\<open>composeQuestion\<close> is kept in the
  future of the task and thrown again when phase 4 asks for the result: the turn then ends
  without a result, after the extracted values have been stored and with the counter of
  active tasks still raised. The body of phase 5 builds the closing request and nothing
  else: the call of the closer and the assignment to \<^verbatim>\<open>closing_triggered\<close> are inside a
  comment in the source, so both branches leave the result as it is.
\<close>

definition processInput ::
  "'s AdvancedSessionController \<Rightarrow> nat \<Rightarrow> nat \<Rightarrow> string \<Rightarrow> 's
   \<Rightarrow> ProcessingResult option \<times> 's AdvancedSessionController \<times> 's" where
  "processInput ctl rnd k input_sentence s =
     (let classification_results = classifier ctl input_sentence;
          detected_entities = map entity_name (filter detected classification_results);
          missing = map entity_name (filter (\<lambda>c. \<not> detected c) classification_results);
          extraction_results =
            (if detected_entities \<noteq> [] then extractor ctl input_sentence detected_entities
             else []);
          should_compose = (missing \<noteq> [] \<and> \<not> isComplete (entity_manager ctl));
          (composed, s') =
            (if should_compose then
               (let entity_groups = groupEntitiesForComposition missing in
                if entity_groups \<noteq> [] then
                  composeQuestion (composer ctl) rnd
                    \<lparr>missing_entities = entity_groups ! 0,
                     known_entities =
                       getKnownEntities
                         (store_found (take k extraction_results) (entity_manager ctl)),
                     conversation_context = input_sentence\<rparr> s
                else (Some CompositionResult_default, s))
             else (Some CompositionResult_default, s));
          manager = store_found extraction_results (entity_manager ctl)
      in case composed of
           None \<Rightarrow>
             (None,
              ctl\<lparr>entity_manager := manager,
                  active_processing_tasks := active_processing_tasks ctl + 1\<rparr>, s')
         | Some composition \<Rightarrow>
             (let (closing, closing_flag) =
                    (if isComplete manager then (ClosingResult_default, False)
                     else (ClosingResult_default, False))
              in (Some
                    \<lparr>entity_results = combineResults classification_results extraction_results,
                     composition_result = composition,
                     closing_result = closing,
                     composition_triggered = should_compose,
                     closing_triggered = closing_flag,
                     metrics = \<lparr>concurrent_tasks = 2, cpu_cores_used = total_cpu_cores ctl\<rparr>\<rparr>,
                  ctl\<lparr>entity_manager := manager\<rparr>, s')))"

text \<open>
  \<^verbatim>\<open>adjustPerformanceBasedOnLoad\<close>. The division of two \<^verbatim>\<open>int\<close>s rounds towards zero.
\<close>

definition int_div :: "int \<Rightarrow> int \<Rightarrow> int" where
  "int_div a b = sgn a * sgn b * (\<bar>a\<bar> div \<bar>b\<bar>)"

definition adjustPerformanceBasedOnLoad ::
  "'s AdvancedSessionController \<Rightarrow> 's AdvancedSessionController" where
  "adjustPerformanceBasedOnLoad ctl =
     (let current_load = active_processing_tasks ctl in
      if current_load > total_cpu_cores ctl then
        ctl\<lparr>composer := adjustThreadCount (composition_threads ctl - 1) (composer ctl)\<rparr>
      else if current_load < int_div (total_cpu_cores ctl) 2 then
        ctl\<lparr>composer := adjustThreadCount (composition_threads ctl + 1) (composer ctl)\<rparr>
      else ctl)"

section \<open>\<^verbatim>\<open>SessionController.h\<close> and \<^verbatim>\<open>advanced_session_controller.cpp\<close>\<close>

text \<open>
  The second controller keeps one \<^verbatim>\<open>ConfigModel\<close> per session id. Its state manager is
  a class of the same name as the composer's; it is \<open>SessionStateManager\<close> here. The field
  \<^verbatim>\<open>notes\<close> is \<open>notes_c\<close>, since \<open>notes\<close> is a keyword, and the members of the manager
  lose their final underscore.
\<close>

record ConfigModel =
  name :: string
  phone :: string
  email :: string
  service :: string
  day :: string
  time :: string
  stylist :: string
  notes_c :: string

definition ConfigModel_default :: ConfigModel where
  "ConfigModel_default =
     \<lparr>name = [], phone = [], email = [], service = [], day = [], time = [], stylist = [],
      notes_c = []\<rparr>"

definition get_empty_entities :: "ConfigModel \<Rightarrow> string list" where
  "get_empty_entities c =
     (if name c = [] then [''name''] else [])
     @ (if phone c = [] then [''phone''] else [])
     @ (if email c = [] then [''email''] else [])
     @ (if service c = [] then [''service''] else [])
     @ (if day c = [] then [''day''] else [])
     @ (if time c = [] then [''time''] else [])
     @ (if stylist c = [] then [''stylist''] else [])
     @ (if notes_c c = [] then [''notes''] else [])"

definition set_entity :: "string \<Rightarrow> string \<Rightarrow> ConfigModel \<Rightarrow> ConfigModel" where
  "set_entity field v c =
     (if field = ''name'' then c\<lparr>name := v\<rparr>
      else if field = ''phone'' then c\<lparr>phone := v\<rparr>
      else if field = ''email'' then c\<lparr>email := v\<rparr>
      else if field = ''service'' then c\<lparr>service := v\<rparr>
      else if field = ''day'' then c\<lparr>day := v\<rparr>
      else if field = ''time'' then c\<lparr>time := v\<rparr>
      else if field = ''stylist'' then c\<lparr>stylist := v\<rparr>
      else if field = ''notes'' then c\<lparr>notes_c := v\<rparr>
      else c)"

definition get_entity :: "ConfigModel \<Rightarrow> string \<Rightarrow> string" where
  "get_entity c field =
     (if field = ''name'' then name c
      else if field = ''phone'' then phone c
      else if field = ''email'' then email c
      else if field = ''service'' then service c
      else if field = ''day'' then day c
      else if field = ''time'' then time c
      else if field = ''stylist'' then stylist c
      else if field = ''notes'' then notes_c c
      else [])"

record SessionStateManager =
  sessions :: "string \<rightharpoonup> ConfigModel"
  active_sessions :: "string \<rightharpoonup> bool"

definition create_session :: "string \<Rightarrow> SessionStateManager \<Rightarrow> SessionStateManager" where
  "create_session session_id m =
     m\<lparr>sessions := (sessions m)(session_id \<mapsto> ConfigModel_default),
       active_sessions := (active_sessions m)(session_id \<mapsto> True)\<rparr>"

definition get_session :: "SessionStateManager \<Rightarrow> string \<Rightarrow> ConfigModel" where
  "get_session m session_id =
     (case sessions m session_id of
        Some entities \<Rightarrow> entities
      | None \<Rightarrow> ConfigModel_default)"

definition update_session ::
  "string \<Rightarrow> ConfigModel \<Rightarrow> SessionStateManager \<Rightarrow> SessionStateManager" where
  "update_session session_id entities m =
     m\<lparr>sessions := (sessions m)(session_id \<mapsto> entities)\<rparr>"

definition is_session_active :: "SessionStateManager \<Rightarrow> string \<Rightarrow> bool" where
  "is_session_active m session_id =
     (case active_sessions m session_id of Some active \<Rightarrow> active | None \<Rightarrow> False)"

definition set_session_active :: "string \<Rightarrow> bool \<Rightarrow> SessionStateManager \<Rightarrow> SessionStateManager" where
  "set_session_active session_id active m =
     m\<lparr>active_sessions := (active_sessions m)(session_id \<mapsto> active)\<rparr>"

definition end_session :: "string \<Rightarrow> SessionStateManager \<Rightarrow> SessionStateManager" where
  "end_session session_id m =
     m\<lparr>sessions := (sessions m)(session_id := None),
       active_sessions := (active_sessions m)(session_id := None)\<rparr>"

text \<open>
  \<^verbatim>\<open>SessionController::group_entities\<close> returns one group: a predefined pair when both
  of its members are empty, else the first one or two empty entities as they come.
\<close>

definition group_entities :: "string list \<Rightarrow> string list" where
  "group_entities empty_entities =
     (if ''name'' \<in> set empty_entities \<and> ''phone'' \<in> set empty_entities
      then [''name'', ''phone'']
      else if ''day'' \<in> set empty_entities \<and> ''time'' \<in> set empty_entities
      then [''day'', ''time'']
      else if empty_entities \<noteq> [] then
        [empty_entities ! 0] @ (if length empty_entities > 1 then [empty_entities ! 1] else [])
      else [])"

text \<open>
  The translation of the second controller's entity names into the names of the
  classifier, as \<^verbatim>\<open>SessionController::update_session\<close> does it.
\<close>

definition cpp_entity :: "string \<Rightarrow> string" where
  "cpp_entity entity =
     (if entity = ''name'' then ''caller_name''
      else if entity = ''phone'' then ''phone_number''
      else if entity = ''day'' then ''day_preference''
      else if entity = ''time'' then ''time_preference''
      else if entity = ''service'' then ''service_type''
      else entity)"

section \<open>Sequences of generator calls\<close>

text \<open>
  The results of \<open>n\<close> calls of \<^verbatim>\<open>generateWithLLM\<close> in a row, each from the state the
  previous one left; the same for the closer.
\<close>

fun llm_outcomes ::
  "'s LLMInterface \<Rightarrow> CompositionRequest \<Rightarrow> nat \<Rightarrow> 's \<Rightarrow> CompositionResult list" where
  "llm_outcomes llm request 0 s = []"
| "llm_outcomes llm request (Suc n) s =
     (case generateWithLLM llm request s of (r, s') \<Rightarrow> r # llm_outcomes llm request n s')"

fun llm_outcomes_closer ::
  "'s LLMInterface \<Rightarrow> ClosingRequest \<Rightarrow> nat \<Rightarrow> 's \<Rightarrow> ClosingResult list" where
  "llm_outcomes_closer llm request 0 s = []"
| "llm_outcomes_closer llm request (Suc n) s =
     (case generateWithLLM_closer llm request s of
        (r, s') \<Rightarrow> r # llm_outcomes_closer llm request n s')"

text \<open>
  The state of the generator after \<open>n\<close> such calls in a row, and the number of retries a
  loop makes that leaves at the first better outcome, when \<open>outcomes\<close> are the outcomes
  its retries would have in turn: one more than the outcomes that are not better, or all
  of them when none is.
\<close>

fun llm_state_after :: "'s LLMInterface \<Rightarrow> CompositionRequest \<Rightarrow> nat \<Rightarrow> 's \<Rightarrow> 's" where
  "llm_state_after llm request 0 s = s"
| "llm_state_after llm request (Suc n) s =
     (case generateWithLLM llm request s of (r, s') \<Rightarrow> llm_state_after llm request n s')"

fun llm_state_after_closer :: "'s LLMInterface \<Rightarrow> ClosingRequest \<Rightarrow> nat \<Rightarrow> 's \<Rightarrow> 's" where
  "llm_state_after_closer llm request 0 s = s"
| "llm_state_after_closer llm request (Suc n) s =
     (case generateWithLLM_closer llm request s of
        (r, s') \<Rightarrow> llm_state_after_closer llm request n s')"

definition retries_made :: "('r \<Rightarrow> bool) \<Rightarrow> 'r list \<Rightarrow> nat" where
  "retries_made better outcomes =
     (let k = length (takeWhile (\<lambda>r. \<not> better r) outcomes)
      in if k < length outcomes then Suc k else k)"

text \<open>
  The retry step as the specification words it, for comparison with the loop of the
  source: every retry is looked at, the best score seen is kept, and when it reaches the
  threshold it is returned under the method \<open>primary_retry\<close>; \<open>None\<close> is the fall
  through to the template.
\<close>

fun keep_best :: "CompositionResult \<Rightarrow> CompositionResult list \<Rightarrow> CompositionResult" where
  "keep_best best [] = best"
| "keep_best best (r # rs) =
     keep_best (if quality_score r > quality_score best then r else best) rs"

definition retry_as_specified ::
  "real \<Rightarrow> CompositionResult \<Rightarrow> CompositionResult list \<Rightarrow> CompositionResult option" where
  "retry_as_specified threshold first retries =
     (let best = keep_best first retries in
      if quality_score best \<ge> threshold
      then Some (best\<lparr>generation_method := ''primary_retry''\<rparr>)
      else None)"

section \<open>Sample inputs\<close>

text \<open>A manager in which the five required entities are known, and an empty registry.\<close>

definition complete_manager :: EntityStateManager where
  "complete_manager =
     updateMultipleEntities
       [(''caller_name'', ''John''), (''phone_number'', ''555-123-4567''),
        (''day_preference'', ''Friday''), (''time_preference'', ''2 PM''),
        (''service_type'', ''haircut'')]
       EntityStateManager_new"

definition no_sessions :: SessionStateManager where
  "no_sessions = \<lparr>sessions = Map.empty, active_sessions = Map.empty\<rparr>"

text \<open>
  A composer without a generator, as \<^verbatim>\<open>SessionController::initialize\<close> makes it, and a
  request that names three missing entities.
\<close>

definition composer_without_llm :: "unit ComposerCrew" where
  "composer_without_llm = ComposerCrew_new None 2 4"

definition three_missing :: CompositionRequest where
  "three_missing =
     \<lparr>missing_entities = [''caller_name'', ''phone_number'', ''day_preference''],
      known_entities = Map.empty, conversation_context = ''Hello''\<rparr>"

text \<open>
  Three generators over a state that holds nothing: one that is available and whose
  generation calls throw, one whose every call throws, \<^verbatim>\<open>isAvailable\<close> too, and one that
  always returns the same question with the same score. A request for the caller's name
  and phone number.
\<close>

definition throwing_llm :: "unit LLMInterface" where
  "throwing_llm =
     \<lparr>generateQuestion = (\<lambda>request s. (None, s)),
      assessQuestionQuality = (\<lambda>question request s. (None, s)),
      isAvailable = (\<lambda>s. (Some True, s))\<rparr>"

definition unreachable_llm :: "unit LLMInterface" where
  "unreachable_llm =
     \<lparr>generateQuestion = (\<lambda>request s. (None, s)),
      assessQuestionQuality = (\<lambda>question request s. (None, s)),
      isAvailable = (\<lambda>s. (None, s))\<rparr>"

definition fixed_score_llm :: "real \<Rightarrow> unit LLMInterface" where
  "fixed_score_llm score =
     \<lparr>generateQuestion = (\<lambda>request s. (Some ''Could you tell me a bit more?'', s)),
      assessQuestionQuality = (\<lambda>question request s. (Some score, s)),
      isAvailable = (\<lambda>s. (Some True, s))\<rparr>"

definition name_and_phone :: CompositionRequest where
  "name_and_phone =
     \<lparr>missing_entities = [''caller_name'', ''phone_number''],
      known_entities = Map.empty, conversation_context = ''Hello''\<rparr>"

text \<open>
  A generator that counts its assessments and gives the \<open>n\<close>-th question the \<open>n\<close>-th
  score of a list (and throws when the list is used up), and a closing request whose data
  are valid.
\<close>

definition scripted_llm :: "real list \<Rightarrow> nat LLMInterface" where
  "scripted_llm scores =
     \<lparr>generateQuestion = (\<lambda>request n. (Some ''Could you tell me a bit more?'', n)),
      assessQuestionQuality =
        (\<lambda>question request n. (if n < length scores then Some (scores ! n) else None, Suc n)),
      isAvailable = (\<lambda>n. (Some True, n))\<rparr>"

definition complete_request :: ClosingRequest where
  "complete_request =
     \<lparr>complete_entities =
        [''caller_name'' \<mapsto> ''John'', ''phone_number'' \<mapsto> ''555-123-4567'',
         ''day_preference'' \<mapsto> ''Friday'', ''time_preference'' \<mapsto> ''2 PM'',
         ''service_type'' \<mapsto> ''haircut''],
      conversation_summary = ''I need a haircut'',
      business_context = ''Hair salon appointment''\<rparr>"

text \<open>
  A classifier that detects nothing and an extractor that finds nothing; a controller on a
  machine with four cores whose session is complete, and one with five turns in progress;
  a closing request whose phone number is malformed.
\<close>

definition nothing_detected :: "string \<Rightarrow> ClassificationResult list" where
  "nothing_detected sentence =
     map (\<lambda>e. \<lparr>entity_name = e, confidence = 0, detected = False\<rparr>)
       [''caller_name'', ''phone_number'', ''day_preference'', ''time_preference'',
        ''service_type'']"

definition extracts_nothing :: "string \<Rightarrow> string list \<Rightarrow> ExtractionResult list" where
  "extracts_nothing sentence targets =
     map (\<lambda>e. \<lparr>entity_name_x = e, extracted_value = [], ner_confidence = 0, found = False,
                method_used = ''none''\<rparr>) targets"

definition complete_controller :: "unit AdvancedSessionController" where
  "complete_controller =
     (AdvancedSessionController_new nothing_detected extracts_nothing
        (Some (fixed_score_llm 0.9)) 4)
     \<lparr>entity_manager := complete_manager\<rparr>"

definition loaded_controller :: "unit AdvancedSessionController" where
  "loaded_controller =
     (AdvancedSessionController_new nothing_detected extracts_nothing
        (Some (fixed_score_llm 0.9)) 4)
     \<lparr>active_processing_tasks := 5\<rparr>"

definition bad_phone_request :: ClosingRequest where
  "bad_phone_request =
     \<lparr>complete_entities =
        [''caller_name'' \<mapsto> ''John'', ''phone_number'' \<mapsto> ''12345'',
         ''day_preference'' \<mapsto> ''Friday'', ''time_preference'' \<mapsto> ''2 PM'',
         ''service_type'' \<mapsto> ''haircut''],
      conversation_summary = ''I need a haircut'',
      business_context = ''Hair salon appointment''\<rparr>"

section \<open>Properties\<close>

declare retry_loop.simps [simp del]
declare group_loop.simps [simp del]
declare retry_loop_closer.simps [simp del]
declare group_loop_controller.simps [simp del]
declare to_string.simps [simp del]

subsection \<open>The entity state\<close>

lemma missing_loop_filter:
  "missing_loop vals req acc
   = acc @ filter (\<lambda>e. case vals e of None \<Rightarrow> True | Some v \<Rightarrow> v = []) req"
  by (induction req arbitrary: acc) (auto split: option.splits)

lemma isComplete_iff:
  "isComplete m \<longleftrightarrow> (\<forall>e \<in> set (required_entities m). hasEntity m e)"
  by (auto simp: isComplete_def getMissingEntities_def missing_loop_filter hasEntity_def
        filter_empty_conv split: option.splits)

lemma required_updateMultipleEntities [simp]:
  "required_entities (updateMultipleEntities updates m) = required_entities m"
  by (induction updates arbitrary: m) auto

lemma hasEntity_updateMultipleEntities:
  "\<forall>v \<in> set (map snd updates). v \<noteq> [] \<Longrightarrow> hasEntity m e
   \<Longrightarrow> hasEntity (updateMultipleEntities updates m) e"
proof (induction updates arbitrary: m)
  case Nil
  then show ?case by simp
next
  case (Cons pair updates)
  have "hasEntity (m\<lparr>entity_values := (entity_values m)(fst pair \<mapsto> snd pair)\<rparr>) e"
    using Cons.prems by (auto simp: hasEntity_def)
  with Cons show ?case by simp
qed

lemma isComplete_run_call:
  assumes "isComplete m" and "\<forall>v \<in> set (call_values c). v \<noteq> []"
  shows "isComplete (run_call c m)"
proof (cases c)
  case (UpdateEntity k v)
  with assms have "v \<noteq> []" by simp
  with assms(1) UpdateEntity show ?thesis
    by (auto simp: isComplete_iff hasEntity_def updateEntity_def)
next
  case (UpdateMultipleEntities updates)
  with assms have "\<forall>v \<in> set (map snd updates). v \<noteq> []" by simp
  with assms(1) UpdateMultipleEntities show ?thesis
    by (simp add: isComplete_iff hasEntity_updateMultipleEntities)
qed

lemma values_updateMultipleEntities:
  "distinct (map fst updates) \<Longrightarrow>
   entity_values (updateMultipleEntities updates m) k
   = (case map_of updates k of Some v \<Rightarrow> Some v | None \<Rightarrow> entity_values m k)"
proof (induction updates arbitrary: m)
  case Nil
  then show ?case by simp
next
  case (Cons pair updates)
  then have "map_of updates (fst pair) = None"
    by (simp add: map_of_eq_None_iff)
  with Cons show ?case
    by (cases pair) (auto split: option.splits)
qed

lemma isComplete_complete_manager: "isComplete complete_manager"
  by (simp add: isComplete_def getMissingEntities_def complete_manager_def
      EntityStateManager_new_def)

text \<open>
  Claim C2, as the code has it. \<^verbatim>\<open>updateEntity\<close> and \<^verbatim>\<open>updateMultipleEntities\<close> assign
  whatever value they are given: an update that maps a slot to the empty string stores the
  empty string for it, so the slot is missing afterwards, whatever it held before. Only the
  slots that the update does not mention keep their value.
\<close>

theorem empty_update_overwrites:
  assumes "distinct (map fst updates)" and "(slot, []) \<in> set updates"
  shows "entity_values (updateEntity slot [] m) slot = Some []
     \<and> entity_values (updateMultipleEntities updates m) slot = Some []
     \<and> \<not> hasEntity (updateEntity slot [] m) slot
     \<and> \<not> hasEntity (updateMultipleEntities updates m) slot
     \<and> (\<forall>other. other \<noteq> slot \<longrightarrow>
           entity_values (updateEntity slot [] m) other = entity_values m other)
     \<and> (\<forall>other. other \<notin> fst ` set updates \<longrightarrow>
           entity_values (updateMultipleEntities updates m) other = entity_values m other)"
proof -
  from assms have "map_of updates slot = Some []" by simp
  moreover have "map_of updates other = None" if "other \<notin> fst ` set updates" for other
    using that by (simp add: map_of_eq_None_iff)
  ultimately show ?thesis
    using assms(1)
    by (auto simp: values_updateMultipleEntities hasEntity_def updateEntity_def)
qed

text \<open>
  The statement at a concrete state: the caller's name is known, and an update whose map
  holds the empty string for it leaves it unknown.
\<close>

theorem empty_update_overwrites_witness:
  "distinct (map fst [(''caller_name'', []), (''phone_number'', ''555-987-6543'')])
   \<and> (''caller_name'', []) \<in> set [(''caller_name'', []), (''phone_number'', ''555-987-6543'')]
   \<and> entity_values complete_manager ''caller_name'' = Some ''John''
   \<and> entity_values (updateEntity ''caller_name'' [] complete_manager) ''caller_name'' = Some []
   \<and> entity_values
        (updateMultipleEntities [(''caller_name'', []), (''phone_number'', ''555-987-6543'')]
           complete_manager) ''caller_name'' = Some []
   \<and> \<not> hasEntity
        (updateMultipleEntities [(''caller_name'', []), (''phone_number'', ''555-987-6543'')]
           complete_manager) ''caller_name''"
proof -
  have h1: "distinct (map fst [(''caller_name'', []), (''phone_number'', ''555-987-6543'')])"
    by simp
  have h2: "(''caller_name'', []) \<in> set [(''caller_name'', []), (''phone_number'', ''555-987-6543'')]"
    by simp
  have h3: "entity_values complete_manager ''caller_name'' = Some ''John''"
    by (simp add: complete_manager_def EntityStateManager_new_def)
  from empty_update_overwrites [OF h1 h2, of complete_manager] h1 h2 h3 show ?thesis
    by blast
qed

text \<open>
  Claim C2 as the specification states it (an empty value leaves a non-empty stored value
  unchanged) fails: after the name \<open>John\<close> is stored, either update with the empty string
  makes the stored name empty.
\<close>

theorem empty_update_clears_counterexample:
  "getEntity (updateEntity ''caller_name'' ''John'' EntityStateManager_new) ''caller_name'' = ''John''
   \<and> getEntity (updateEntity ''caller_name'' []
        (updateEntity ''caller_name'' ''John'' EntityStateManager_new)) ''caller_name'' = []
   \<and> getEntity (updateMultipleEntities [(''caller_name'', [])]
        (updateEntity ''caller_name'' ''John'' EntityStateManager_new)) ''caller_name'' = []"
  by (simp add: getEntity_def updateEntity_def EntityStateManager_new_def)

text \<open>
  Claim C6: once \<^verbatim>\<open>isComplete\<close> holds, it still holds after any sequence of calls of
  \<^verbatim>\<open>updateEntity\<close> and \<^verbatim>\<open>updateMultipleEntities\<close> whose values are all non-empty.
\<close>

theorem isComplete_monotone:
  assumes "isComplete m" and "\<forall>c \<in> set calls. \<forall>v \<in> set (call_values c). v \<noteq> []"
  shows "isComplete (run_calls calls m)"
  using assms
proof (induction calls arbitrary: m)
  case Nil
  then show ?case by simp
next
  case (Cons c calls)
  then show ?case by (simp add: isComplete_run_call)
qed

text \<open>The same for two calls on the complete sample manager.\<close>

theorem isComplete_monotone_witness:
  "isComplete complete_manager
   \<and> isComplete
        (run_calls
           [UpdateEntity ''caller_name'' ''Jane'',
            UpdateMultipleEntities [(''day_preference'', ''Monday''), (''time_preference'', ''9 AM'')]]
           complete_manager)"
proof -
  have h: "\<forall>c \<in> set [UpdateEntity ''caller_name'' ''Jane'',
            UpdateMultipleEntities [(''day_preference'', ''Monday''), (''time_preference'', ''9 AM'')]].
          \<forall>v \<in> set (call_values c). v \<noteq> []"
    by simp
  from isComplete_monotone [OF isComplete_complete_manager h] isComplete_complete_manager
  show ?thesis by blast
qed

subsection \<open>The session registry\<close>

text \<open>
  Claim C10: for a session id that is not in the registry, \<^verbatim>\<open>get_session\<close> returns the
  default \<^verbatim>\<open>ConfigModel\<close>, all of whose fields are empty, and no error; it is what
  \<^verbatim>\<open>get_session\<close> returns for the same id right after \<^verbatim>\<open>create_session\<close>.
\<close>

theorem get_session_unknown_is_default:
  assumes "sessions m session_id = None"
  shows "get_session m session_id = ConfigModel_default
     \<and> get_session m session_id = get_session (create_session session_id m) session_id"
  using assms by (simp add: get_session_def create_session_def)

text \<open>The same in the empty registry.\<close>

theorem get_session_unknown_is_default_witness:
  "sessions no_sessions ''session123'' = None
   \<and> get_session no_sessions ''session123'' = ConfigModel_default
   \<and> get_session no_sessions ''session123''
       = get_session (create_session ''session123'' no_sessions) ''session123''"
proof -
  have h: "sessions no_sessions ''session123'' = None"
    by (simp add: no_sessions_def)
  from get_session_unknown_is_default [OF h] h show ?thesis by blast
qed

subsection \<open>Composition\<close>

lemma composeQuestion_limited:
  "composeQuestion crew rnd request s
   = composeQuestion crew rnd (request\<lparr>missing_entities := take 2 (missing_entities request)\<rparr>) s"
proof -
  have a: "(if length (missing_entities request) > 2
       then request\<lparr>missing_entities := take 2 (missing_entities request)\<rparr> else request)
     = request\<lparr>missing_entities := take 2 (missing_entities request)\<rparr>"
    by simp
  have b: "(if length (missing_entities (request\<lparr>missing_entities := take 2 (missing_entities request)\<rparr>)) > 2
       then request\<lparr>missing_entities := take 2 (missing_entities request)\<rparr>
              \<lparr>missing_entities := take 2 (missing_entities (request\<lparr>missing_entities := take 2 (missing_entities request)\<rparr>))\<rparr>
       else request\<lparr>missing_entities := take 2 (missing_entities request)\<rparr>)
     = request\<lparr>missing_entities := take 2 (missing_entities request)\<rparr>"
    by simp
  show ?thesis
    unfolding composeQuestion_def a b ..
qed

text \<open>
  The part of \<^verbatim>\<open>composeQuestion\<close> that tries the generator, on the request cut to two
  entities: \<open>None\<close> when \<^verbatim>\<open>isAvailable\<close> throws.
\<close>

lemma composeQuestion_unfold:
  "composeQuestion crew rnd request s =
     (case (case llm_interface crew of
              None \<Rightarrow> (Some CompositionResult_default, s)
            | Some llm \<Rightarrow>
                (case isAvailable llm s of
                   (None, s0) \<Rightarrow> (None, s0)
                 | (Some False, s0) \<Rightarrow> (Some CompositionResult_default, s0)
                 | (Some True, s0) \<Rightarrow>
                     (case generateWithLLM llm
                             (request\<lparr>missing_entities := take 2 (missing_entities request)\<rparr>) s0 of
                        (result, s1) \<Rightarrow>
                          if is_valid result \<and> quality_score result < quality_threshold crew
                          then (case retry_loop llm
                                       (request\<lparr>missing_entities := take 2 (missing_entities request)\<rparr>)
                                       (max_retries crew) 0 result s1 of
                                  (result', s2) \<Rightarrow> (Some result', s2))
                          else (Some result, s1)))) of
        (None, s') \<Rightarrow> (None, s')
      | (Some result, s') \<Rightarrow>
          (Some ((if \<not> is_valid result \<or> quality_score result < quality_threshold crew
                  then generateWithTemplate crew rnd
                         (request\<lparr>missing_entities := take 2 (missing_entities request)\<rparr>)
                  else result)
                 \<lparr>targeted_entities := take 2 (missing_entities request)\<rparr>), s'))"
proof -
  have a: "(if length (missing_entities request) > 2
       then request\<lparr>missing_entities := take 2 (missing_entities request)\<rparr> else request)
     = request\<lparr>missing_entities := take 2 (missing_entities request)\<rparr>"
    by simp
  show ?thesis
    unfolding composeQuestion_def a
    by (simp add: Let_def split: prod.splits option.splits)
qed

lemma composeQuestion_targets:
  "map_option targeted_entities (fst (composeQuestion crew rnd request s))
   = (case llm_interface crew of
        None \<Rightarrow> Some (take 2 (missing_entities request))
      | Some llm \<Rightarrow>
          (case fst (isAvailable llm s) of
             None \<Rightarrow> None
           | Some available \<Rightarrow> Some (take 2 (missing_entities request))))"
  unfolding composeQuestion_unfold
  by (simp split: prod.splits option.splits bool.splits)

text \<open>
  Claim C9: \<^verbatim>\<open>composeQuestion\<close> works on the first two missing entities only. Whenever
  it returns a result, which it does unless \<^verbatim>\<open>isAvailable\<close> throws, the targeted
  entities of the result are the first two missing entities of the request, never more
  than two; and what it does on a request is what it does on the request cut to its first
  two missing entities.
\<close>

theorem composeQuestion_truncates_to_two:
  "map_option targeted_entities (fst (composeQuestion crew rnd request s))
   = (case llm_interface crew of
        None \<Rightarrow> Some (take 2 (missing_entities request))
      | Some llm \<Rightarrow>
          (case fst (isAvailable llm s) of
             None \<Rightarrow> None
           | Some available \<Rightarrow> Some (take 2 (missing_entities request))))
   \<and> (\<forall>r. fst (composeQuestion crew rnd request s) = Some r \<longrightarrow>
          targeted_entities r = take 2 (missing_entities request)
          \<and> length (targeted_entities r) \<le> 2)
   \<and> composeQuestion crew rnd request s
       = composeQuestion crew rnd (request\<lparr>missing_entities := take 2 (missing_entities request)\<rparr>) s"
proof -
  have "targeted_entities r = take 2 (missing_entities request) \<and> length (targeted_entities r) \<le> 2"
    if "fst (composeQuestion crew rnd request s) = Some r" for r
    using that composeQuestion_targets [of crew rnd request s]
    by (auto split: option.splits)
  with composeQuestion_limited [of crew rnd request s]
    composeQuestion_targets [of crew rnd request s]
  show ?thesis by blast
qed

text \<open>A request with three missing entities is answered for its first two.\<close>

theorem composeQuestion_truncates_to_two_witness:
  "length (missing_entities three_missing) > 2
   \<and> map_option targeted_entities (fst (composeQuestion composer_without_llm 0 three_missing ()))
       = Some [''caller_name'', ''phone_number'']
   \<and> composeQuestion composer_without_llm 0 three_missing ()
       = composeQuestion composer_without_llm 0
           (three_missing\<lparr>missing_entities := [''caller_name'', ''phone_number'']\<rparr>) ()"
proof -
  have t: "take 2 (missing_entities three_missing) = [''caller_name'', ''phone_number'']"
    by (simp add: three_missing_def)
  have l: "length (missing_entities three_missing) > 2"
    by (simp add: three_missing_def)
  have n: "llm_interface composer_without_llm = None"
    by (simp add: composer_without_llm_def ComposerCrew_new_def)
  note th = composeQuestion_truncates_to_two [of composer_without_llm 0 three_missing "()"]
  from th have "map_option targeted_entities
        (fst (composeQuestion composer_without_llm 0 three_missing ()))
      = (case llm_interface composer_without_llm of
           None \<Rightarrow> Some (take 2 (missing_entities three_missing))
         | Some llm \<Rightarrow>
             (case fst (isAvailable llm ()) of
                None \<Rightarrow> None
              | Some available \<Rightarrow> Some (take 2 (missing_entities three_missing))))"
    by (rule conjunct1)
  then have a: "map_option targeted_entities
        (fst (composeQuestion composer_without_llm 0 three_missing ()))
      = Some [''caller_name'', ''phone_number'']"
    by (simp only: n t option.case)
  from th have "composeQuestion composer_without_llm 0 three_missing ()
       = composeQuestion composer_without_llm 0
           (three_missing\<lparr>missing_entities := take 2 (missing_entities three_missing)\<rparr>) ()"
    by (rule conjunct2 [THEN conjunct2])
  then have b: "composeQuestion composer_without_llm 0 three_missing ()
       = composeQuestion composer_without_llm 0
           (three_missing\<lparr>missing_entities := [''caller_name'', ''phone_number'']\<rparr>) ()"
    by (simp only: t)
  from l a b show ?thesis by (intro conjI)
qed

subsection \<open>The generation gate of the composer\<close>

lemma generateWithTemplate_valid:
  "is_valid (generateWithTemplate crew rnd request)
   \<and> (generation_method (generateWithTemplate crew rnd request) = ''template''
      \<or> generation_method (generateWithTemplate crew rnd request) = ''template_fallback'')"
  by (simp add: generateWithTemplate_def Let_def CompositionResult_default_def
      split: option.splits)

lemma retry_loop_stays_poor:
  assumes "\<forall>s'. \<not> is_valid (fst (generateWithLLM llm request s'))
              \<or> quality_score (fst (generateWithLLM llm request s')) < threshold"
    and "\<not> is_valid result \<or> quality_score result < threshold"
  shows "\<not> is_valid (fst (retry_loop llm request maxr retry result s))
         \<or> quality_score (fst (retry_loop llm request maxr retry result s)) < threshold"
  using assms
proof (induction llm request maxr retry result s rule: retry_loop.induct)
  case (1 llm request maxr retry result s)
  note all = "1.prems"(1)
  show ?case
  proof (cases "retry < maxr")
    case False
    with 1 show ?thesis by (simp add: retry_loop.simps)
  next
    case True
    obtain r s' where g: "generateWithLLM llm request s = (r, s')"
      by (cases "generateWithLLM llm request s")
    from all g have poor: "\<not> is_valid r \<or> quality_score r < threshold"
      by (metis fst_conv)
    show ?thesis
    proof (cases "quality_score r > quality_score result")
      case better: True
      with True g poor show ?thesis
        by (simp add: retry_loop.simps [of llm request maxr retry])
    next
      case worse: False
      from "1.IH" [OF True g [symmetric] _ "1.prems"] worse
      have "\<not> is_valid (fst (retry_loop llm request maxr (retry + 1) result s'))
         \<or> quality_score (fst (retry_loop llm request maxr (retry + 1) result s')) < threshold"
        by simp
      with True g worse show ?thesis
        by (simp add: retry_loop.simps [of llm request maxr retry])
    qed
  qed
qed

text \<open>
  When \<^verbatim>\<open>isAvailable\<close> returns, the gate always ends in a valid template result if the
  generator is missing, reports that it is not available, or fails or scores below the
  threshold at every generation call: with a generator whose generation calls throw, the
  question comes from the template.
\<close>

lemma composeQuestion_template_when_generation_fails:
  assumes "llm_interface crew = None
     \<or> (\<exists>llm. llm_interface crew = Some llm \<and> fst (isAvailable llm s) = Some False)
     \<or> (\<exists>llm. llm_interface crew = Some llm \<and> fst (isAvailable llm s) = Some True
          \<and> (\<forall>s'. \<not> is_valid (fst (generateWithLLM llm
                       (request\<lparr>missing_entities := take 2 (missing_entities request)\<rparr>) s'))
                 \<or> quality_score (fst (generateWithLLM llm
                       (request\<lparr>missing_entities := take 2 (missing_entities request)\<rparr>) s'))
                    < quality_threshold crew))"
  shows "\<exists>r. fst (composeQuestion crew rnd request s) = Some r \<and> is_valid r
     \<and> (generation_method r = ''template'' \<or> generation_method r = ''template_fallback'')"
proof -
  define lim where "lim = request\<lparr>missing_entities := take 2 (missing_entities request)\<rparr>"
  note tv = generateWithTemplate_valid [of crew rnd lim]
  from assms show ?thesis
  proof (elim disjE exE conjE)
    assume "llm_interface crew = None"
    with tv show ?thesis
      unfolding composeQuestion_unfold lim_def [symmetric]
      by (simp add: CompositionResult_default_def)
  next
    fix llm assume "llm_interface crew = Some llm" "fst (isAvailable llm s) = Some False"
    with tv show ?thesis
      unfolding composeQuestion_unfold lim_def [symmetric]
      by (cases "isAvailable llm s") (simp add: CompositionResult_default_def)
  next
    fix llm assume l: "llm_interface crew = Some llm"
      and av: "fst (isAvailable llm s) = Some True"
      and all: "\<forall>s'. \<not> is_valid (fst (generateWithLLM llm
                       (request\<lparr>missing_entities := take 2 (missing_entities request)\<rparr>) s'))
                 \<or> quality_score (fst (generateWithLLM llm
                       (request\<lparr>missing_entities := take 2 (missing_entities request)\<rparr>) s'))
                    < quality_threshold crew"
    obtain s0 where a: "isAvailable llm s = (Some True, s0)"
      using av by (cases "isAvailable llm s") simp
    obtain r s1 where g: "generateWithLLM llm lim s0 = (r, s1)"
      by (cases "generateWithLLM llm lim s0")
    from all have all': "\<forall>s'. \<not> is_valid (fst (generateWithLLM llm lim s'))
        \<or> quality_score (fst (generateWithLLM llm lim s')) < quality_threshold crew"
      unfolding lim_def .
    from all' g have rp: "\<not> is_valid r \<or> quality_score r < quality_threshold crew"
      by (metis fst_conv)
    obtain r' s2 where rl: "retry_loop llm lim (max_retries crew) 0 r s1 = (r', s2)"
      by (cases "retry_loop llm lim (max_retries crew) 0 r s1")
    from retry_loop_stays_poor [OF all' rp, of "max_retries crew" 0 s1] rl
    have rp': "\<not> is_valid r' \<or> quality_score r' < quality_threshold crew"
      by simp
    from l a g rl rp rp' tv show ?thesis
      unfolding composeQuestion_unfold lim_def [symmetric]
      by auto
  qed
qed

lemma throwing_generator_template:
  "map_option generation_method
     (fst (composeQuestion (ComposerCrew_new (Some throwing_llm) 2 4) 0 name_and_phone ()))
   = Some ''template''"
  by (simp add: composeQuestion_def ComposerCrew_new_def name_and_phone_def throwing_llm_def
      generateWithLLM_def generateWithTemplate_def initializeTemplates_def
      CompositionResult_default_def Let_def)

text \<open>
  Claim C1 at a generator whose every call throws, \<^verbatim>\<open>isAvailable\<close> included: the
  exception of \<^verbatim>\<open>isAvailable\<close> is not caught, so \<^verbatim>\<open>composeQuestion\<close> returns no result
  at all, and the task of \<^verbatim>\<open>composeQuestionAsync\<close> answers with a result that is not
  valid.
\<close>

theorem unreachable_generator_raises:
  "fst (isAvailable unreachable_llm ()) = None
   \<and> fst (generateQuestion unreachable_llm name_and_phone ()) = None
   \<and> fst (composeQuestion (ComposerCrew_new (Some unreachable_llm) 2 4) 0 name_and_phone ()) = None
   \<and> is_valid
        (fst (composeQuestionAsync_task (ComposerCrew_new (Some unreachable_llm) 2 4) 0
                name_and_phone ())) = False"
  by (simp add: composeQuestionAsync_task_def composeQuestion_def ComposerCrew_new_def
      unreachable_llm_def CompositionResult_default_def Let_def)

text \<open>So no valid template result comes back on that input.\<close>

theorem unreachable_generator_raises_witness:
  "map_option is_valid
     (fst (composeQuestion (ComposerCrew_new (Some unreachable_llm) 2 4) 0 name_and_phone ()))
   = None"
  using unreachable_generator_raises by simp

subsection \<open>The retry loops\<close>

lemma retries_made_Nil [simp]: "retries_made better [] = 0"
  by (simp add: retries_made_def)

lemma retries_made_Cons [simp]:
  "retries_made better (r # rs) = (if better r then 1 else Suc (retries_made better rs))"
  by (simp add: retries_made_def Let_def)

lemma generateWithLLM_method:
  "is_valid (fst (generateWithLLM llm request s))
   \<Longrightarrow> generation_method (fst (generateWithLLM llm request s)) = ''llm_primary''"
  by (auto simp: generateWithLLM_def CompositionResult_default_def
      split: prod.splits option.splits if_splits)

lemma llm_outcomes_method:
  "r \<in> set (llm_outcomes llm request n s) \<Longrightarrow> is_valid r
   \<Longrightarrow> generation_method r = ''llm_primary''"
proof (induction n arbitrary: s)
  case 0
  then show ?case by simp
next
  case (Suc n)
  obtain r0 s' where g: "generateWithLLM llm request s = (r0, s')"
    by (cases "generateWithLLM llm request s")
  with Suc.prems have "r = r0 \<or> r \<in> set (llm_outcomes llm request n s')" by simp
  then show ?case
  proof
    assume "r = r0"
    with g Suc.prems(2) generateWithLLM_method [of llm request s] show ?thesis by simp
  next
    assume "r \<in> set (llm_outcomes llm request n s')"
    with Suc show ?thesis by blast
  qed
qed

lemma retry_loop_find:
  "retry_loop llm request maxr retry result s
   = ((case find (\<lambda>r. quality_score r > quality_score result)
             (llm_outcomes llm request (nat (maxr - retry)) s) of
         None \<Rightarrow> result
       | Some r \<Rightarrow> r),
      llm_state_after llm request
        (retries_made (\<lambda>r. quality_score r > quality_score result)
           (llm_outcomes llm request (nat (maxr - retry)) s)) s)"
proof (induction llm request maxr retry result s rule: retry_loop.induct)
  case (1 llm request maxr retry result s)
  show ?case
  proof (cases "retry < maxr")
    case False
    then show ?thesis by (simp add: retry_loop.simps [of llm request maxr retry])
  next
    case True
    then have n: "nat (maxr - retry) = Suc (nat (maxr - (retry + 1)))" by simp
    obtain r s' where g: "generateWithLLM llm request s = (r, s')"
      by (cases "generateWithLLM llm request s")
    show ?thesis
    proof (cases "quality_score r > quality_score result")
      case better: True
      with True g show ?thesis
        unfolding n by (simp add: retry_loop.simps [of llm request maxr retry])
    next
      case worse: False
      from "1.IH" [OF True g [symmetric] _] worse True g show ?thesis
        unfolding n by (simp add: retry_loop.simps [of llm request maxr retry])
    qed
  qed
qed

lemma retry_first_improvement_composer:
  assumes l: "llm_interface crew = Some llm"
    and a: "isAvailable llm s = (Some True, s0)"
    and g: "generateWithLLM llm (request\<lparr>missing_entities := take 2 (missing_entities request)\<rparr>) s0
             = (first, s1)"
    and v: "is_valid first" and q: "quality_score first < quality_threshold crew"
  shows "composeQuestion crew rnd request s
     = (Some
          ((case find (\<lambda>r. quality_score r > quality_score first)
                  (llm_outcomes llm (request\<lparr>missing_entities := take 2 (missing_entities request)\<rparr>)
                     (nat (max_retries crew)) s1) of
              Some r \<Rightarrow>
                if is_valid r \<and> quality_score r \<ge> quality_threshold crew then r
                else generateWithTemplate crew rnd
                       (request\<lparr>missing_entities := take 2 (missing_entities request)\<rparr>)
            | None \<Rightarrow>
                generateWithTemplate crew rnd
                  (request\<lparr>missing_entities := take 2 (missing_entities request)\<rparr>))
           \<lparr>targeted_entities := take 2 (missing_entities request)\<rparr>),
        llm_state_after llm (request\<lparr>missing_entities := take 2 (missing_entities request)\<rparr>)
          (retries_made (\<lambda>r. quality_score r > quality_score first)
             (llm_outcomes llm (request\<lparr>missing_entities := take 2 (missing_entities request)\<rparr>)
                (nat (max_retries crew)) s1)) s1)"
    and "map_option generation_method (fst (composeQuestion crew rnd request s)) = Some ''llm_primary''
       \<or> map_option generation_method (fst (composeQuestion crew rnd request s)) = Some ''template''
       \<or> map_option generation_method (fst (composeQuestion crew rnd request s))
          = Some ''template_fallback''"
proof -
  define lim where "lim = request\<lparr>missing_entities := take 2 (missing_entities request)\<rparr>"
  define outcomes where "outcomes = llm_outcomes llm lim (nat (max_retries crew)) s1"
  define best where "best = (case find (\<lambda>r. quality_score r > quality_score first) outcomes of
        None \<Rightarrow> first | Some r \<Rightarrow> r)"
  define after where "after = llm_state_after llm lim
          (retries_made (\<lambda>r. quality_score r > quality_score first) outcomes) s1"
  have rl: "retry_loop llm lim (max_retries crew) 0 first s1 = (best, after)"
    unfolding best_def after_def outcomes_def by (simp add: retry_loop_find)
  have unfold: "composeQuestion crew rnd request s =
      (Some ((if \<not> is_valid best \<or> quality_score best < quality_threshold crew
        then generateWithTemplate crew rnd lim else best)
       \<lparr>targeted_entities := take 2 (missing_entities request)\<rparr>), after)"
    unfolding composeQuestion_unfold lim_def [symmetric]
    using l a g [folded lim_def] v q rl by simp
  show "composeQuestion crew rnd request s
     = (Some
          ((case find (\<lambda>r. quality_score r > quality_score first)
                  (llm_outcomes llm (request\<lparr>missing_entities := take 2 (missing_entities request)\<rparr>)
                     (nat (max_retries crew)) s1) of
              Some r \<Rightarrow>
                if is_valid r \<and> quality_score r \<ge> quality_threshold crew then r
                else generateWithTemplate crew rnd
                       (request\<lparr>missing_entities := take 2 (missing_entities request)\<rparr>)
            | None \<Rightarrow>
                generateWithTemplate crew rnd
                  (request\<lparr>missing_entities := take 2 (missing_entities request)\<rparr>))
           \<lparr>targeted_entities := take 2 (missing_entities request)\<rparr>),
        llm_state_after llm (request\<lparr>missing_entities := take 2 (missing_entities request)\<rparr>)
          (retries_made (\<lambda>r. quality_score r > quality_score first)
             (llm_outcomes llm (request\<lparr>missing_entities := take 2 (missing_entities request)\<rparr>)
                (nat (max_retries crew)) s1)) s1)"
    unfolding unfold lim_def [symmetric] outcomes_def [symmetric] after_def [symmetric]
    unfolding best_def
    using v q by (auto split: option.splits)
  have m: "generation_method r = ''llm_primary''"
    if "find (\<lambda>r. quality_score r > quality_score first) outcomes = Some r" "is_valid r" for r
  proof -
    from that(1) have "r \<in> set outcomes"
      by (auto simp: find_Some_iff)
    with that(2) llm_outcomes_method [of r llm lim "nat (max_retries crew)" s1]
    show ?thesis by (simp add: outcomes_def)
  qed
  show "map_option generation_method (fst (composeQuestion crew rnd request s)) = Some ''llm_primary''
       \<or> map_option generation_method (fst (composeQuestion crew rnd request s)) = Some ''template''
       \<or> map_option generation_method (fst (composeQuestion crew rnd request s))
          = Some ''template_fallback''"
    unfolding unfold best_def
    using generateWithTemplate_valid [of crew rnd lim] m v q
    by (auto split: option.splits)
qed

lemma generateWithLLM_closer_method:
  "is_valid_closing (fst (generateWithLLM_closer llm request s))
   \<Longrightarrow> generation_method_closing (fst (generateWithLLM_closer llm request s)) = ''llm_primary''"
  by (auto simp: generateWithLLM_closer_def ClosingResult_default_def Let_def
      split: prod.splits option.splits if_splits)

lemma llm_outcomes_closer_method:
  "r \<in> set (llm_outcomes_closer llm request n s) \<Longrightarrow> is_valid_closing r
   \<Longrightarrow> generation_method_closing r = ''llm_primary''"
proof (induction n arbitrary: s)
  case 0
  then show ?case by simp
next
  case (Suc n)
  obtain r0 s' where g: "generateWithLLM_closer llm request s = (r0, s')"
    by (cases "generateWithLLM_closer llm request s")
  with Suc.prems have "r = r0 \<or> r \<in> set (llm_outcomes_closer llm request n s')" by simp
  then show ?case
  proof
    assume "r = r0"
    with g Suc.prems(2) generateWithLLM_closer_method [of llm request s] show ?thesis by simp
  next
    assume "r \<in> set (llm_outcomes_closer llm request n s')"
    with Suc show ?thesis by blast
  qed
qed

lemma retry_loop_closer_find:
  "retry_loop_closer llm request maxr retry result s
   = ((case find (\<lambda>r. confidence_score r > confidence_score result)
             (llm_outcomes_closer llm request (nat (maxr - retry)) s) of
         None \<Rightarrow> result
       | Some r \<Rightarrow> r),
      llm_state_after_closer llm request
        (retries_made (\<lambda>r. confidence_score r > confidence_score result)
           (llm_outcomes_closer llm request (nat (maxr - retry)) s)) s)"
proof (induction llm request maxr retry result s rule: retry_loop_closer.induct)
  case (1 llm request maxr retry result s)
  show ?case
  proof (cases "retry < maxr")
    case False
    then show ?thesis by (simp add: retry_loop_closer.simps [of llm request maxr retry])
  next
    case True
    then have n: "nat (maxr - retry) = Suc (nat (maxr - (retry + 1)))" by simp
    obtain r s' where g: "generateWithLLM_closer llm request s = (r, s')"
      by (cases "generateWithLLM_closer llm request s")
    show ?thesis
    proof (cases "confidence_score r > confidence_score result")
      case better: True
      with True g show ?thesis
        unfolding n by (simp add: retry_loop_closer.simps [of llm request maxr retry])
    next
      case worse: False
      from "1.IH" [OF True g [symmetric] _] worse True g show ?thesis
        unfolding n by (simp add: retry_loop_closer.simps [of llm request maxr retry])
    qed
  qed
qed

lemma generateWithTemplate_closer_valid:
  "is_valid_closing (generateWithTemplate_closer crew rnd1 rnd2 request)
   \<and> generation_method_closing (generateWithTemplate_closer crew rnd1 rnd2 request) = ''template''
   \<and> \<not> needs_followup (generateWithTemplate_closer crew rnd1 rnd2 request)"
  by (simp add: generateWithTemplate_closer_def Let_def ClosingResult_default_def)

lemma retry_first_improvement_closer:
  assumes ok: "validateAppointmentData request"
    and l: "llm_interface_closer crew = Some llm"
    and a: "isAvailable llm s = (Some True, s0)"
    and g: "generateWithLLM_closer llm request s0 = (first, s1)"
    and v: "is_valid_closing first" and q: "confidence_score first < confidence_threshold crew"
  shows "generateClosing crew rnd1 rnd2 rnd3 request s
     = (Some
          ((case find (\<lambda>r. confidence_score r > confidence_score first)
                  (llm_outcomes_closer llm request (nat (max_retries_closer crew)) s1) of
              Some r \<Rightarrow>
                if is_valid_closing r \<and> confidence_score r \<ge> confidence_threshold crew then r
                else generateWithTemplate_closer crew rnd1 rnd2 request
            | None \<Rightarrow> generateWithTemplate_closer crew rnd1 rnd2 request)
           \<lparr>appointment_summary := formatAppointmentDetails request,
            confirmation_details := generateConfirmationNumber rnd3,
            next_steps := generateNextSteps request,
            needs_followup := needsFollowup request\<rparr>),
        llm_state_after_closer llm request
          (retries_made (\<lambda>r. confidence_score r > confidence_score first)
             (llm_outcomes_closer llm request (nat (max_retries_closer crew)) s1)) s1)"
    and "map_option generation_method_closing (fst (generateClosing crew rnd1 rnd2 rnd3 request s))
           = Some ''llm_primary''
       \<or> map_option generation_method_closing (fst (generateClosing crew rnd1 rnd2 rnd3 request s))
           = Some ''template''"
proof -
  define outcomes where
    "outcomes = llm_outcomes_closer llm request (nat (max_retries_closer crew)) s1"
  define best where "best = (case find (\<lambda>r. confidence_score r > confidence_score first) outcomes of
        None \<Rightarrow> first | Some r \<Rightarrow> r)"
  define after where "after = llm_state_after_closer llm request
          (retries_made (\<lambda>r. confidence_score r > confidence_score first) outcomes) s1"
  have rl: "retry_loop_closer llm request (max_retries_closer crew) 0 first s1 = (best, after)"
    unfolding best_def after_def outcomes_def by (simp add: retry_loop_closer_find)
  have unfold: "generateClosing crew rnd1 rnd2 rnd3 request s =
      (Some ((if \<not> is_valid_closing best \<or> confidence_score best < confidence_threshold crew
        then generateWithTemplate_closer crew rnd1 rnd2 request else best)
       \<lparr>appointment_summary := formatAppointmentDetails request,
        confirmation_details := generateConfirmationNumber rnd3,
        next_steps := generateNextSteps request,
        needs_followup := needsFollowup request\<rparr>), after)"
    unfolding generateClosing_def
    using ok l a g v q rl by (simp add: Let_def)
  show "generateClosing crew rnd1 rnd2 rnd3 request s
     = (Some
          ((case find (\<lambda>r. confidence_score r > confidence_score first)
                  (llm_outcomes_closer llm request (nat (max_retries_closer crew)) s1) of
              Some r \<Rightarrow>
                if is_valid_closing r \<and> confidence_score r \<ge> confidence_threshold crew then r
                else generateWithTemplate_closer crew rnd1 rnd2 request
            | None \<Rightarrow> generateWithTemplate_closer crew rnd1 rnd2 request)
           \<lparr>appointment_summary := formatAppointmentDetails request,
            confirmation_details := generateConfirmationNumber rnd3,
            next_steps := generateNextSteps request,
            needs_followup := needsFollowup request\<rparr>),
        llm_state_after_closer llm request
          (retries_made (\<lambda>r. confidence_score r > confidence_score first)
             (llm_outcomes_closer llm request (nat (max_retries_closer crew)) s1)) s1)"
    unfolding unfold outcomes_def [symmetric] after_def [symmetric]
    unfolding best_def
    using v q by (auto split: option.splits)
  have m: "generation_method_closing r = ''llm_primary''"
    if "find (\<lambda>r. confidence_score r > confidence_score first) outcomes = Some r"
       "is_valid_closing r" for r
  proof -
    from that(1) have "r \<in> set outcomes"
      by (auto simp: find_Some_iff)
    with that(2) llm_outcomes_closer_method [of r llm request "nat (max_retries_closer crew)" s1]
    show ?thesis by (simp add: outcomes_def)
  qed
  show "map_option generation_method_closing (fst (generateClosing crew rnd1 rnd2 rnd3 request s))
           = Some ''llm_primary''
       \<or> map_option generation_method_closing (fst (generateClosing crew rnd1 rnd2 rnd3 request s))
           = Some ''template''"
    unfolding unfold best_def
    using generateWithTemplate_closer_valid [of crew rnd1 rnd2 request] m v q
    by (auto split: option.splits)
qed

lemma validate_complete_request: "validateAppointmentData complete_request"
  by (simp add: validateAppointmentData_def complete_request_def at_key_def isValidName_def
      isValidPhoneNumber_def isValidTimeSlot_def digits_def local_number_def is_digit_def Let_def)

lemma scripted_outcomes:
  "llm_outcomes (scripted_llm [0.5, 0.6, 0.9]) name_and_phone 3 0 =
     [CompositionResult_default
        \<lparr>generated_question := ''Could you tell me a bit more?'',
         generation_method := ''llm_primary'', quality_score := 0.5, is_valid := True\<rparr>,
      CompositionResult_default
        \<lparr>generated_question := ''Could you tell me a bit more?'',
         generation_method := ''llm_primary'', quality_score := 0.6, is_valid := True\<rparr>,
      CompositionResult_default
        \<lparr>generated_question := ''Could you tell me a bit more?'',
         generation_method := ''llm_primary'', quality_score := 0.9, is_valid := True\<rparr>]"
  by (simp add: eval_nat_numeral generateWithLLM_def scripted_llm_def)

lemma compose_scripted:
  "composeQuestion (ComposerCrew_new (Some (scripted_llm [0.5, 0.6, 0.9])) 2 4) 0 name_and_phone 0
   = (Some (CompositionResult_default
       \<lparr>generated_question := ''Great! Can you please tell me your name and phone number?'',
        quality_score := 0.8, is_valid := True, generation_method := ''template'',
        targeted_entities := [''caller_name'', ''phone_number'']\<rparr>), 2)"
  by (simp add: composeQuestion_def ComposerCrew_new_def name_and_phone_def scripted_llm_def
      generateWithLLM_def generateWithTemplate_def initializeTemplates_def
      CompositionResult_default_def Let_def retry_loop.simps)

lemma compose_scripted2:
  "composeQuestion (ComposerCrew_new (Some (scripted_llm [0.5, 0.9])) 2 4) 0 name_and_phone 0
   = (Some (CompositionResult_default
       \<lparr>generated_question := ''Could you tell me a bit more?'',
        quality_score := 0.9, is_valid := True, generation_method := ''llm_primary'',
        targeted_entities := [''caller_name'', ''phone_number'']\<rparr>), 2)"
  by (simp add: composeQuestion_def ComposerCrew_new_def name_and_phone_def scripted_llm_def
      generateWithLLM_def generateWithTemplate_def initializeTemplates_def
      CompositionResult_default_def Let_def retry_loop.simps)


text \<open>
  Claim C3, as the code has it. When the first outcome of the generator is valid but below
  the threshold, the gate retries at most \<^verbatim>\<open>max_retries\<close> times and stops at the first
  retry whose score is above the score of the first outcome; that retry replaces the first
  outcome, and the generator is not called again (its state is the one that retry left).
  If the retry is valid and reaches the threshold it is returned as the generator made
  it, under the method \<open>llm_primary\<close>; if it does not, or no retry scored above the first
  outcome, the gate falls through to the template. The composer and the closer do the
  same; the closer then fills in the appointment details.
\<close>

theorem retry_stops_at_first_improvement:
  "(llm_interface crew = Some llm \<and> isAvailable llm s = (Some True, s0)
      \<and> generateWithLLM llm (request\<lparr>missing_entities := take 2 (missing_entities request)\<rparr>) s0
          = (first, s1)
      \<and> is_valid first \<and> quality_score first < quality_threshold crew
    \<longrightarrow>
      composeQuestion crew rnd request s
        = (Some
             ((case find (\<lambda>r. quality_score r > quality_score first)
                     (llm_outcomes llm (request\<lparr>missing_entities := take 2 (missing_entities request)\<rparr>)
                        (nat (max_retries crew)) s1) of
                 Some r \<Rightarrow>
                   if is_valid r \<and> quality_score r \<ge> quality_threshold crew then r
                   else generateWithTemplate crew rnd
                          (request\<lparr>missing_entities := take 2 (missing_entities request)\<rparr>)
               | None \<Rightarrow>
                   generateWithTemplate crew rnd
                     (request\<lparr>missing_entities := take 2 (missing_entities request)\<rparr>))
              \<lparr>targeted_entities := take 2 (missing_entities request)\<rparr>),
           llm_state_after llm (request\<lparr>missing_entities := take 2 (missing_entities request)\<rparr>)
             (retries_made (\<lambda>r. quality_score r > quality_score first)
                (llm_outcomes llm (request\<lparr>missing_entities := take 2 (missing_entities request)\<rparr>)
                   (nat (max_retries crew)) s1)) s1)
      \<and> (map_option generation_method (fst (composeQuestion crew rnd request s)) = Some ''llm_primary''
         \<or> map_option generation_method (fst (composeQuestion crew rnd request s)) = Some ''template''
         \<or> map_option generation_method (fst (composeQuestion crew rnd request s))
            = Some ''template_fallback''))
   \<and> (validateAppointmentData closing_request
      \<and> llm_interface_closer closer_crew = Some cllm \<and> isAvailable cllm c = (Some True, c0)
      \<and> generateWithLLM_closer cllm closing_request c0 = (first_closing, c1)
      \<and> is_valid_closing first_closing
      \<and> confidence_score first_closing < confidence_threshold closer_crew
    \<longrightarrow>
      generateClosing closer_crew rnd1 rnd2 rnd3 closing_request c
        = (Some
             ((case find (\<lambda>r. confidence_score r > confidence_score first_closing)
                     (llm_outcomes_closer cllm closing_request (nat (max_retries_closer closer_crew)) c1) of
                 Some r \<Rightarrow>
                   if is_valid_closing r \<and> confidence_score r \<ge> confidence_threshold closer_crew then r
                   else generateWithTemplate_closer closer_crew rnd1 rnd2 closing_request
               | None \<Rightarrow> generateWithTemplate_closer closer_crew rnd1 rnd2 closing_request)
              \<lparr>appointment_summary := formatAppointmentDetails closing_request,
               confirmation_details := generateConfirmationNumber rnd3,
               next_steps := generateNextSteps closing_request,
               needs_followup := needsFollowup closing_request\<rparr>),
           llm_state_after_closer cllm closing_request
             (retries_made (\<lambda>r. confidence_score r > confidence_score first_closing)
                (llm_outcomes_closer cllm closing_request (nat (max_retries_closer closer_crew)) c1))
             c1)
      \<and> (map_option generation_method_closing
            (fst (generateClosing closer_crew rnd1 rnd2 rnd3 closing_request c)) = Some ''llm_primary''
         \<or> map_option generation_method_closing
            (fst (generateClosing closer_crew rnd1 rnd2 rnd3 closing_request c)) = Some ''template''))"
  using retry_first_improvement_composer [of crew llm s s0 request first s1 rnd]
    retry_first_improvement_closer [of closing_request closer_crew cllm c c0 first_closing c1 rnd1 rnd2 rnd3]
  by blast

text \<open>
  A generator whose scores are 0.5, 0.6 and 0.9: the first retry (0.6) is above the first
  outcome (0.5) and ends the loop below the threshold, so both the composer and the closer
  answer from their templates, and the generator has assessed two questions, not three.
\<close>

theorem retry_stops_at_first_improvement_witness:
  "is_valid (fst (generateWithLLM (scripted_llm [0.5, 0.6, 0.9]) name_and_phone 0))
   \<and> quality_score (fst (generateWithLLM (scripted_llm [0.5, 0.6, 0.9]) name_and_phone 0))
       < quality_threshold (ComposerCrew_new (Some (scripted_llm [0.5, 0.6, 0.9])) 2 4)
   \<and> composeQuestion (ComposerCrew_new (Some (scripted_llm [0.5, 0.6, 0.9])) 2 4) 0
            name_and_phone 0
       = (Some ((generateWithTemplate (ComposerCrew_new (Some (scripted_llm [0.5, 0.6, 0.9])) 2 4) 0
            name_and_phone)\<lparr>targeted_entities := [''caller_name'', ''phone_number'']\<rparr>), 2)
   \<and> validateAppointmentData complete_request
   \<and> is_valid_closing (fst (generateWithLLM_closer (scripted_llm [0.5, 0.6, 0.9]) complete_request 0))
   \<and> confidence_score (fst (generateWithLLM_closer (scripted_llm [0.5, 0.6, 0.9]) complete_request 0))
       < confidence_threshold (CloserCrew_new (Some (scripted_llm [0.5, 0.6, 0.9])))
   \<and> generateClosing (CloserCrew_new (Some (scripted_llm [0.5, 0.6, 0.9]))) 0 0 0
            complete_request 0
       = (Some ((generateWithTemplate_closer (CloserCrew_new (Some (scripted_llm [0.5, 0.6, 0.9]))) 0 0
            complete_request)
          \<lparr>appointment_summary := formatAppointmentDetails complete_request,
           confirmation_details := generateConfirmationNumber 0,
           next_steps := generateNextSteps complete_request,
           needs_followup := needsFollowup complete_request\<rparr>), 2)"
proof -
  let ?l = "scripted_llm [0.5, 0.6, 0.9]"
  let ?crew = "ComposerCrew_new (Some ?l) 2 4"
  let ?closer = "CloserCrew_new (Some ?l)"
  let ?first = "CompositionResult_default
        \<lparr>generated_question := ''Could you tell me a bit more?'',
         generation_method := ''llm_primary'', quality_score := 0.5, is_valid := True\<rparr>"
  let ?cfirst = "ClosingResult_default
        \<lparr>closing_message := ''Could you tell me a bit more?'',
         generation_method_closing := ''llm_primary'', confidence_score := 0.5,
         is_valid_closing := True\<rparr>"
  have t: "name_and_phone\<lparr>missing_entities := take 2 (missing_entities name_and_phone)\<rparr>
           = name_and_phone"
    by (simp add: name_and_phone_def)
  have t2: "take 2 (missing_entities name_and_phone) = [''caller_name'', ''phone_number'']"
    by (simp add: name_and_phone_def)
  have g: "generateWithLLM ?l name_and_phone 0 = (?first, 1)"
    by (simp add: generateWithLLM_def scripted_llm_def)
  have cg: "generateWithLLM_closer ?l complete_request 0 = (?cfirst, 1)"
    by (simp add: generateWithLLM_closer_def scripted_llm_def)
  have h1: "llm_interface ?crew = Some ?l \<and> isAvailable ?l 0 = (Some True, 0)
      \<and> generateWithLLM ?l (name_and_phone\<lparr>missing_entities := take 2 (missing_entities name_and_phone)\<rparr>) 0
          = (?first, 1)
      \<and> is_valid ?first \<and> quality_score ?first < quality_threshold ?crew"
    unfolding t using g
    by (simp add: ComposerCrew_new_def scripted_llm_def CompositionResult_default_def)
  have h2: "validateAppointmentData complete_request
      \<and> llm_interface_closer ?closer = Some ?l \<and> isAvailable ?l 0 = (Some True, 0)
      \<and> generateWithLLM_closer ?l complete_request 0 = (?cfirst, 1)
      \<and> is_valid_closing ?cfirst
      \<and> confidence_score ?cfirst < confidence_threshold ?closer"
    using cg validate_complete_request
    by (simp add: CloserCrew_new_def scripted_llm_def ClosingResult_default_def)
  have o: "llm_outcomes ?l name_and_phone (nat (max_retries ?crew)) 1
     = [CompositionResult_default
        \<lparr>generated_question := ''Could you tell me a bit more?'',
         generation_method := ''llm_primary'', quality_score := 0.6, is_valid := True\<rparr>,
      CompositionResult_default
        \<lparr>generated_question := ''Could you tell me a bit more?'',
         generation_method := ''llm_primary'', quality_score := 0.9, is_valid := True\<rparr>]"
    by (simp add: ComposerCrew_new_def eval_nat_numeral generateWithLLM_def scripted_llm_def)
  have co: "llm_outcomes_closer ?l complete_request (nat (max_retries_closer ?closer)) 1
     = [ClosingResult_default
        \<lparr>closing_message := ''Could you tell me a bit more?'',
         generation_method_closing := ''llm_primary'', confidence_score := 0.6,
         is_valid_closing := True\<rparr>,
      ClosingResult_default
        \<lparr>closing_message := ''Could you tell me a bit more?'',
         generation_method_closing := ''llm_primary'', confidence_score := 0.9,
         is_valid_closing := True\<rparr>]"
    by (simp add: CloserCrew_new_def eval_nat_numeral generateWithLLM_closer_def scripted_llm_def)
  have th: "quality_threshold ?crew = 0.7" "confidence_threshold ?closer = 0.8"
    by (simp_all add: ComposerCrew_new_def CloserCrew_new_def)
  have st: "llm_state_after ?l name_and_phone (Suc 0) 1 = 2"
    "llm_state_after_closer ?l complete_request (Suc 0) 1 = 2"
    by (simp_all add: generateWithLLM_def generateWithLLM_closer_def scripted_llm_def)
  from retry_stops_at_first_improvement
    [of ?crew ?l 0 0 name_and_phone ?first 1 0 complete_request ?closer ?l 0 0 ?cfirst 1 0 0 0]
    h1 h2
  have c1: "composeQuestion ?crew 0 name_and_phone 0
        = (Some
             ((case find (\<lambda>r. quality_score r > quality_score ?first)
                     (llm_outcomes ?l (name_and_phone\<lparr>missing_entities := take 2 (missing_entities name_and_phone)\<rparr>)
                        (nat (max_retries ?crew)) 1) of
                 Some r \<Rightarrow>
                   if is_valid r \<and> quality_score r \<ge> quality_threshold ?crew then r
                   else generateWithTemplate ?crew 0
                          (name_and_phone\<lparr>missing_entities := take 2 (missing_entities name_and_phone)\<rparr>)
               | None \<Rightarrow>
                   generateWithTemplate ?crew 0
                     (name_and_phone\<lparr>missing_entities := take 2 (missing_entities name_and_phone)\<rparr>))
              \<lparr>targeted_entities := take 2 (missing_entities name_and_phone)\<rparr>),
           llm_state_after ?l (name_and_phone\<lparr>missing_entities := take 2 (missing_entities name_and_phone)\<rparr>)
             (retries_made (\<lambda>r. quality_score r > quality_score ?first)
                (llm_outcomes ?l (name_and_phone\<lparr>missing_entities := take 2 (missing_entities name_and_phone)\<rparr>)
                   (nat (max_retries ?crew)) 1)) 1)"
    and c2: "generateClosing ?closer 0 0 0 complete_request 0
        = (Some
             ((case find (\<lambda>r. confidence_score r > confidence_score ?cfirst)
                     (llm_outcomes_closer ?l complete_request (nat (max_retries_closer ?closer)) 1) of
                 Some r \<Rightarrow>
                   if is_valid_closing r \<and> confidence_score r \<ge> confidence_threshold ?closer then r
                   else generateWithTemplate_closer ?closer 0 0 complete_request
               | None \<Rightarrow> generateWithTemplate_closer ?closer 0 0 complete_request)
              \<lparr>appointment_summary := formatAppointmentDetails complete_request,
               confirmation_details := generateConfirmationNumber 0,
               next_steps := generateNextSteps complete_request,
               needs_followup := needsFollowup complete_request\<rparr>),
           llm_state_after_closer ?l complete_request
             (retries_made (\<lambda>r. confidence_score r > confidence_score ?cfirst)
                (llm_outcomes_closer ?l complete_request (nat (max_retries_closer ?closer)) 1))
             1)"
    by blast+
  have r1: "composeQuestion ?crew 0 name_and_phone 0
       = (Some ((generateWithTemplate ?crew 0 name_and_phone)
           \<lparr>targeted_entities := [''caller_name'', ''phone_number'']\<rparr>), 2)"
    unfolding c1 unfolding t unfolding t2 o th
    using st by (simp add: CompositionResult_default_def)
  have r2: "generateClosing ?closer 0 0 0 complete_request 0
       = (Some ((generateWithTemplate_closer ?closer 0 0 complete_request)
          \<lparr>appointment_summary := formatAppointmentDetails complete_request,
           confirmation_details := generateConfirmationNumber 0,
           next_steps := generateNextSteps complete_request,
           needs_followup := needsFollowup complete_request\<rparr>), 2)"
    unfolding c2 co th using st by (simp add: ClosingResult_default_def)
  from h1 h2 g cg r1 r2 show ?thesis
    unfolding th by simp
qed

text \<open>
  Claim C3 as the specification states it fails on that generator: the best score over the
  two retries is 0.9, which reaches the threshold 0.7, so the gate as specified returns that
  outcome under \<open>primary_retry\<close>; \<^verbatim>\<open>composeQuestion\<close> returns the template. And when
  the first retry itself reaches the threshold (scores 0.5 and 0.9), the result keeps the
  method \<open>llm_primary\<close>: no path of the source sets \<open>primary_retry\<close>.
\<close>

theorem retry_keeps_best_counterexample:
  "map quality_score (llm_outcomes (scripted_llm [0.5, 0.6, 0.9]) name_and_phone 3 0) = [0.5, 0.6, 0.9]
   \<and> map is_valid (llm_outcomes (scripted_llm [0.5, 0.6, 0.9]) name_and_phone 3 0) = [True, True, True]
   \<and> max_retries (ComposerCrew_new (Some (scripted_llm [0.5, 0.6, 0.9])) 2 4) = 2
   \<and> quality_threshold (ComposerCrew_new (Some (scripted_llm [0.5, 0.6, 0.9])) 2 4) = 0.7
   \<and> map_option quality_score
        (retry_as_specified 0.7
           (hd (llm_outcomes (scripted_llm [0.5, 0.6, 0.9]) name_and_phone 3 0))
           (tl (llm_outcomes (scripted_llm [0.5, 0.6, 0.9]) name_and_phone 3 0))) = Some 0.9
   \<and> map_option generation_method
        (retry_as_specified 0.7
           (hd (llm_outcomes (scripted_llm [0.5, 0.6, 0.9]) name_and_phone 3 0))
           (tl (llm_outcomes (scripted_llm [0.5, 0.6, 0.9]) name_and_phone 3 0)))
       = Some ''primary_retry''
   \<and> map_option generation_method
        (fst (composeQuestion (ComposerCrew_new (Some (scripted_llm [0.5, 0.6, 0.9])) 2 4) 0
                name_and_phone 0)) = Some ''template''
   \<and> map_option quality_score
        (fst (composeQuestion (ComposerCrew_new (Some (scripted_llm [0.5, 0.6, 0.9])) 2 4) 0
                name_and_phone 0)) = Some 0.8
   \<and> map_option generation_method
        (fst (composeQuestion (ComposerCrew_new (Some (scripted_llm [0.5, 0.9])) 2 4) 0
                name_and_phone 0)) = Some ''llm_primary''
   \<and> map_option quality_score
        (fst (composeQuestion (ComposerCrew_new (Some (scripted_llm [0.5, 0.9])) 2 4) 0
                name_and_phone 0)) = Some 0.9"
  unfolding scripted_outcomes compose_scripted compose_scripted2
  by (simp add: retry_as_specified_def CompositionResult_default_def ComposerCrew_new_def)

subsection \<open>Grouping the missing entities\<close>

lemma related_in_iff:
  "related_in pairs a b \<longleftrightarrow> (a, b) \<in> set pairs \<or> (b, a) \<in> set pairs"
  by (induction pairs) auto

lemma find_Some_holds: "find P xs = Some y \<Longrightarrow> P y \<and> y \<in> set xs"
  by (induction xs) (auto split: if_splits)

lemma pair_with_related_find:
  "pair_with_related [x] rest
   = (case find (areEntitiesRelated x) rest of
        None \<Rightarrow> ([x], rest)
      | Some y \<Rightarrow> ([x, y], remove1 y rest))"
proof (induction rest)
  case Nil
  then show ?case by simp
next
  case (Cons e rest)
  then show ?case
    by (auto split: option.splits dest: find_Some_holds)
qed

lemma pair_with_related_shorter:
  "length (snd (pair_with_related g r)) \<le> length r"
  by (induction r) (auto split: prod.splits)

lemma group_loop_append:
  "group_loop groups remaining = groups @ group_loop [] remaining"
proof (induction "length remaining" arbitrary: groups remaining rule: less_induct)
  case less
  show ?case
  proof (cases remaining)
    case Nil
    then show ?thesis by (simp add: group_loop.simps)
  next
    case (Cons x rest)
    obtain grp remaining' where p: "pair_with_related [x] rest = (grp, remaining')"
      by (cases "pair_with_related [x] rest")
    with pair_with_related_shorter [of "[x]" rest] Cons
    have "length remaining' < length remaining" by simp
    from less [OF this, of "groups @ [grp]"] less [OF this, of "[grp]"]
    have "group_loop (groups @ [grp]) remaining' = groups @ group_loop [grp] remaining'"
      by simp
    with p Cons show ?thesis
      by (simp add: group_loop.simps [of groups "x # rest"] group_loop.simps [of "[]" "x # rest"])
  qed
qed

lemma groupMissingEntities_Nil: "groupMissingEntities [] = []"
  by (simp add: groupMissingEntities_def group_loop.simps)

lemma groupMissingEntities_Cons:
  "groupMissingEntities (x # xs)
   = (case find (areEntitiesRelated x) xs of
        None \<Rightarrow> [x] # groupMissingEntities xs
      | Some y \<Rightarrow> [x, y] # groupMissingEntities (remove1 y xs))"
proof -
  have "groupMissingEntities (x # xs)
      = (case pair_with_related [x] xs of (grp, remaining') \<Rightarrow> group_loop [grp] remaining')"
    by (simp add: groupMissingEntities_def group_loop.simps [of "[]" "x # xs"])
  also have "\<dots> = (case pair_with_related [x] xs of
        (grp, remaining') \<Rightarrow> grp # groupMissingEntities remaining')"
    using group_loop_append [of "[_]"]
    by (simp add: groupMissingEntities_def split: prod.splits)
  finally show ?thesis
    by (simp add: pair_with_related_find split: option.splits)
qed

lemma groups_shape:
  "g \<in> set (groupMissingEntities xs) \<Longrightarrow>
   length g = 1 \<or> (length g = 2 \<and> areEntitiesRelated (g ! 0) (g ! 1))"
proof (induction "length xs" arbitrary: xs rule: less_induct)
  case less
  show ?case
  proof (cases xs)
    case Nil
    with less.prems show ?thesis by (simp add: groupMissingEntities_Nil)
  next
    case (Cons x rest)
    show ?thesis
    proof (cases "find (areEntitiesRelated x) rest")
      case None
      with less.prems Cons have "g = [x] \<or> g \<in> set (groupMissingEntities rest)"
        by (simp add: groupMissingEntities_Cons)
      with less.hyps [of rest] Cons show ?thesis by auto
    next
      case (Some y)
      then have y: "areEntitiesRelated x y" "y \<in> set rest"
        by (auto dest: find_Some_holds)
      then have "length (remove1 y rest) < length xs"
        using Cons by (simp add: length_remove1)
      moreover from less.prems Cons Some
      have "g = [x, y] \<or> g \<in> set (groupMissingEntities (remove1 y rest))"
        by (simp add: groupMissingEntities_Cons)
      ultimately show ?thesis
        using less.hyps [of "remove1 y rest"] y by auto
    qed
  qed
qed

lemma groups_keep_all:
  "mset (concat (groupMissingEntities xs)) = mset xs"
proof (induction "length xs" arbitrary: xs rule: less_induct)
  case less
  show ?case
  proof (cases xs)
    case Nil
    then show ?thesis by (simp add: groupMissingEntities_Nil)
  next
    case (Cons x rest)
    show ?thesis
    proof (cases "find (areEntitiesRelated x) rest")
      case None
      with less [of rest] Cons show ?thesis
        by (simp add: groupMissingEntities_Cons)
    next
      case (Some y)
      then have y: "y \<in> set rest"
        by (auto dest: find_Some_holds)
      then have "length (remove1 y rest) < length xs"
        using Cons by (simp add: length_remove1)
      from less [OF this] Some Cons y show ?thesis
        by (simp add: groupMissingEntities_Cons)
    qed
  qed
qed

lemma same_relation: "areEntitiesRelated_controller a b = areEntitiesRelated a b"
  by (simp add: areEntitiesRelated_controller_def areEntitiesRelated_def
      related_pairs_controller_def related_pairs_def)

lemma same_pairing: "pair_with_related_controller g r = pair_with_related g r"
  by (induction r) (auto simp: same_relation)

lemma same_loop: "group_loop_controller groups remaining = group_loop groups remaining"
proof (induction groups remaining rule: group_loop.induct)
  case (1 groups remaining)
  show ?case
  proof (cases "remaining = []")
    case True
    then show ?thesis
      by (simp add: group_loop.simps group_loop_controller.simps)
  next
    case False
    obtain grp remaining' where p: "pair_with_related [remaining ! 0] (tl remaining) = (grp, remaining')"
      by (cases "pair_with_related [remaining ! 0] (tl remaining)")
    from "1.IH" [OF False p [symmetric]] False p show ?thesis
      by (simp add: group_loop.simps [of groups remaining]
          group_loop_controller.simps [of groups remaining] same_pairing)
  qed
qed

lemma areEntitiesRelated_table:
  "areEntitiesRelated a b \<longleftrightarrow>
     (a, b) \<in> {(''caller_name'', ''phone_number''), (''day_preference'', ''time_preference''),
               (''service_type'', ''time_preference''), (''service_type'', ''day_preference'')}
   \<or> (b, a) \<in> {(''caller_name'', ''phone_number''), (''day_preference'', ''time_preference''),
               (''service_type'', ''time_preference''), (''service_type'', ''day_preference'')}"
  unfolding areEntitiesRelated_def related_in_iff related_pairs_def by simp

lemma group_entities_returns:
  "group_entities es
   = (if ''name'' \<in> set es \<and> ''phone'' \<in> set es then [''name'', ''phone'']
      else if ''day'' \<in> set es \<and> ''time'' \<in> set es then [''day'', ''time'']
      else take 2 es)"
  by (cases es; cases "tl es") (auto simp: group_entities_def)

lemma group_entities_short: "length (group_entities es) \<le> 2"
  by (simp add: group_entities_def)

text \<open>
  Claim C5, as the code has it. \<^verbatim>\<open>ComposerCrew::groupMissingEntities\<close> and
  \<^verbatim>\<open>AdvancedSessionController::groupEntitiesForComposition\<close> are the same function: the
  first entity of the pool is the seed; it is paired with the first remaining entity
  related to it by the table (in either orientation) and both leave the pool, or it is
  emitted alone when no related entity remains; this goes on until the pool is empty.
  Every group has one or two entities, a group of two is a related pair, and the groups
  together are the missing entities. \<^verbatim>\<open>SessionController::group_entities\<close> returns one
  group of at most two of the missing entities: name and phone when both are missing, else
  day and time when both are missing, else the first one or two missing entities as they
  come, with no promise that they are related.
\<close>

theorem grouping_pairs_related_slots:
  "groupEntitiesForComposition missing = groupMissingEntities missing
   \<and> groupMissingEntities [] = []
   \<and> groupMissingEntities (seed # rest)
       = (case find (areEntitiesRelated seed) rest of
            None \<Rightarrow> [seed] # groupMissingEntities rest
          | Some partner \<Rightarrow> [seed, partner] # groupMissingEntities (remove1 partner rest))
   \<and> (\<forall>g \<in> set (groupMissingEntities missing).
         length g = 1 \<or> (length g = 2 \<and> areEntitiesRelated (g ! 0) (g ! 1)))
   \<and> mset (concat (groupMissingEntities missing)) = mset missing
   \<and> (areEntitiesRelated a b \<longleftrightarrow>
         (a, b) \<in> {(''caller_name'', ''phone_number''), (''day_preference'', ''time_preference''),
                   (''service_type'', ''time_preference''), (''service_type'', ''day_preference'')}
       \<or> (b, a) \<in> {(''caller_name'', ''phone_number''), (''day_preference'', ''time_preference''),
                   (''service_type'', ''time_preference''), (''service_type'', ''day_preference'')})
   \<and> group_entities missing
       = (if ''name'' \<in> set missing \<and> ''phone'' \<in> set missing then [''name'', ''phone'']
          else if ''day'' \<in> set missing \<and> ''time'' \<in> set missing then [''day'', ''time'']
          else take 2 missing)
   \<and> length (group_entities missing) \<le> 2
   \<and> set (group_entities missing) \<subseteq> set missing"
proof -
  have "groupEntitiesForComposition missing = groupMissingEntities missing"
    by (simp add: groupEntitiesForComposition_def groupMissingEntities_def same_loop)
  moreover have "set (group_entities missing) \<subseteq> set missing"
    by (cases missing; cases "tl missing") (auto simp: group_entities_def)
  moreover note groupMissingEntities_Nil groupMissingEntities_Cons [of seed rest]
    groups_keep_all [of missing] areEntitiesRelated_table [of a b] group_entities_short [of missing]
    group_entities_returns [of missing]
  moreover have "\<forall>g \<in> set (groupMissingEntities missing).
         length g = 1 \<or> (length g = 2 \<and> areEntitiesRelated (g ! 0) (g ! 1))"
    using groups_shape by blast
  ultimately show ?thesis by blast
qed

text \<open>
  With the phone number, the day, the time and the service missing, the phone number is
  asked alone, then day and time together, then the service. The second controller asks
  for name and phone when both are among the empty entities, wherever they stand.
\<close>

theorem grouping_pairs_related_slots_witness:
  "groupMissingEntities [''phone_number'', ''day_preference'', ''time_preference'', ''service_type'']
     = [[''phone_number''], [''day_preference'', ''time_preference''], [''service_type'']]
   \<and> groupEntitiesForComposition
        [''phone_number'', ''day_preference'', ''time_preference'', ''service_type'']
     = [[''phone_number''], [''day_preference'', ''time_preference''], [''service_type'']]
   \<and> areEntitiesRelated ''day_preference'' ''time_preference''
   \<and> group_entities [''service'', ''time''] = [''service'', ''time'']
   \<and> group_entities [''email'', ''phone'', ''name''] = [''name'', ''phone'']"
proof -
  have g: "groupMissingEntities
        [''phone_number'', ''day_preference'', ''time_preference'', ''service_type'']
     = [[''phone_number''], [''day_preference'', ''time_preference''], [''service_type'']]"
    by (simp add: groupMissingEntities_Cons groupMissingEntities_Nil areEntitiesRelated_def
        related_pairs_def)
  have r: "areEntitiesRelated ''day_preference'' ''time_preference''"
    by (simp add: areEntitiesRelated_def related_pairs_def)
  have e: "group_entities [''service'', ''time''] = [''service'', ''time'']"
    by (simp add: group_entities_def)
  from grouping_pairs_related_slots [of "[''phone_number'', ''day_preference'', ''time_preference'', ''service_type'']"
             "''phone_number''" "[''day_preference'', ''time_preference'', ''service_type'']"
             "''day_preference''" "''time_preference''"]
  have "groupEntitiesForComposition
        [''phone_number'', ''day_preference'', ''time_preference'', ''service_type'']
      = groupMissingEntities
        [''phone_number'', ''day_preference'', ''time_preference'', ''service_type'']"
    by blast
  moreover
  from grouping_pairs_related_slots [of "[''email'', ''phone'', ''name'']"]
  have "group_entities [''email'', ''phone'', ''name'']
       = (if ''name'' \<in> set [''email'', ''phone'', ''name'']
             \<and> ''phone'' \<in> set [''email'', ''phone'', ''name''] then [''name'', ''phone'']
          else if ''day'' \<in> set [''email'', ''phone'', ''name'']
             \<and> ''time'' \<in> set [''email'', ''phone'', ''name''] then [''day'', ''time'']
          else take 2 [''email'', ''phone'', ''name''])"
    by blast
  then have "group_entities [''email'', ''phone'', ''name''] = [''name'', ''phone'']"
    by simp
  ultimately show ?thesis using g r e by simp
qed

text \<open>
  Claim C5 as the specification states it fails for \<^verbatim>\<open>SessionController::group_entities\<close>:
  in a session whose name and day are known, it pairs the phone with the email, and with
  phone, service and time missing it pairs the phone with the service; neither pair is in
  the table.
\<close>

theorem group_entities_pairs_unrelated_counterexample:
  "get_empty_entities (set_entity ''day'' ''Monday'' (set_entity ''name'' ''John'' ConfigModel_default))
     = [''phone'', ''email'', ''service'', ''time'', ''stylist'', ''notes'']
   \<and> group_entities [''phone'', ''email'', ''service'', ''time'', ''stylist'', ''notes'']
     = [''phone'', ''email'']
   \<and> \<not> areEntitiesRelated (cpp_entity ''phone'') (cpp_entity ''email'')
   \<and> \<not> related_in [(''name'', ''phone''), (''day'', ''time''), (''service'', ''day''),
                     (''service'', ''time'')] ''phone'' ''email''
   \<and> group_entities [''phone'', ''service'', ''time''] = [''phone'', ''service'']
   \<and> \<not> areEntitiesRelated (cpp_entity ''phone'') (cpp_entity ''service'')
   \<and> \<not> related_in [(''name'', ''phone''), (''day'', ''time''), (''service'', ''day''),
                     (''service'', ''time'')] ''phone'' ''service''"
  by (simp add: get_empty_entities_def set_entity_def ConfigModel_default_def group_entities_def
      areEntitiesRelated_def related_pairs_def cpp_entity_def)

subsection \<open>Closing\<close>

text \<open>
  Claim C7, as the code has it. When the appointment data fail the validation,
  \<^verbatim>\<open>generateClosing\<close> returns the template closing at once: a valid result with the
  method \<open>template\<close>, and the generator is not called, so no exception can come from it.
  The return comes before the assignments of the confirmation number, the next steps and
  \<^verbatim>\<open>needs_followup\<close>, which therefore keep the values of the default result;
  \<^verbatim>\<open>needs_followup\<close> is false.
\<close>

theorem failed_validation_returns_template:
  assumes "\<not> validateAppointmentData request"
  shows "generateClosing crew rnd1 rnd2 rnd3 request s
         = (Some (generateWithTemplate_closer crew rnd1 rnd2 request), s)
     \<and> is_valid_closing (generateWithTemplate_closer crew rnd1 rnd2 request)
     \<and> generation_method_closing (generateWithTemplate_closer crew rnd1 rnd2 request) = ''template''
     \<and> confidence_score (generateWithTemplate_closer crew rnd1 rnd2 request) = 0.85
     \<and> needs_followup (generateWithTemplate_closer crew rnd1 rnd2 request) = False
     \<and> confirmation_details (generateWithTemplate_closer crew rnd1 rnd2 request) = []
     \<and> next_steps (generateWithTemplate_closer crew rnd1 rnd2 request) = []"
  using assms
  by (simp add: generateClosing_def generateWithTemplate_closer_def Let_def
      ClosingResult_default_def)

lemma bad_phone_invalid: "\<not> validateAppointmentData bad_phone_request"
  by (simp add: validateAppointmentData_def bad_phone_request_def at_key_def isValidName_def
      isValidPhoneNumber_def isValidTimeSlot_def digits_def local_number_def is_digit_def Let_def)

text \<open>
  The same for a request whose phone number has five digits, even with a generator whose
  every call throws.
\<close>

theorem failed_validation_returns_template_witness:
  "\<not> validateAppointmentData bad_phone_request
   \<and> map_option is_valid_closing
        (fst (generateClosing (CloserCrew_new (Some unreachable_llm)) 0 0 0 bad_phone_request ()))
       = Some True
   \<and> map_option generation_method_closing
        (fst (generateClosing (CloserCrew_new (Some unreachable_llm)) 0 0 0 bad_phone_request ()))
       = Some ''template''"
  using failed_validation_returns_template
    [OF bad_phone_invalid, of "CloserCrew_new (Some unreachable_llm)" 0 0 0 "()"]
    bad_phone_invalid
  by simp

text \<open>
  Claim C7 as the specification states it (the record is marked as needing follow-up)
  fails on that request.
\<close>

theorem failed_validation_no_followup_counterexample:
  "\<not> validateAppointmentData bad_phone_request
   \<and> map_option needs_followup
        (fst (generateClosing (CloserCrew_new (Some (fixed_score_llm 0.9))) 0 0 0
                bad_phone_request ())) = Some False"
  using bad_phone_invalid
  by (simp add: generateClosing_def generateWithTemplate_closer_def Let_def
      ClosingResult_default_def)

subsection \<open>The turn and the load\<close>

lemma closing_never_triggered:
  "map_option closing_triggered (fst (processInput ctl rnd k input_sentence s)) \<noteq> Some True"
  by (simp add: processInput_def Let_def split_beta split: option.splits)

lemma complete_never_composes:
  "isComplete (entity_manager ctl)
   \<Longrightarrow> map_option composition_triggered (fst (processInput ctl rnd k input_sentence s))
       = Some False"
  by (simp add: processInput_def Let_def split_beta)

text \<open>
  Claim C4 at a session in which the five required entities are known: the turn does not
  trigger composition, but \<^verbatim>\<open>closing_triggered\<close> is false as well.
\<close>

theorem complete_session_closing_not_triggered:
  "isComplete (entity_manager complete_controller)
   \<and> getMissingEntities (entity_manager complete_controller) = []
   \<and> map_option composition_triggered
        (fst (processInput complete_controller 0 0 ''What are your hours today?'' ())) = Some False
   \<and> map_option closing_triggered
        (fst (processInput complete_controller 0 0 ''What are your hours today?'' ())) = Some False"
proof -
  have c: "isComplete (entity_manager complete_controller)"
    using isComplete_complete_manager by (simp add: complete_controller_def)
  have "map_option closing_triggered
        (fst (processInput complete_controller 0 0 ''What are your hours today?'' ())) = Some False"
    using c by (simp add: processInput_def Let_def split_beta)
  with c complete_never_composes [OF c] show ?thesis
    by (simp add: isComplete_def)
qed

text \<open>
  Claim C8 on a machine with four cores, where one composition thread is allotted, when
  five turns are in progress: the adjustment sets the composer's worker count to zero.
\<close>

theorem shrink_reaches_zero_workers:
  "total_cpu_cores loaded_controller = 4
   \<and> composition_threads loaded_controller = 1
   \<and> num_worker_threads (composer loaded_controller) = 1
   \<and> active_processing_tasks loaded_controller = 5
   \<and> num_worker_threads (composer (adjustPerformanceBasedOnLoad loaded_controller)) = 0"
  by (simp add: loaded_controller_def AdvancedSessionController_new_def
      optimizeThreadAllocation_def ComposerCrew_new_def adjustPerformanceBasedOnLoad_def
      adjustThreadCount_def Let_def)

end
